theory Spec2Isabelle
  imports Main "HOL-Library.DAList"
begin

section \<open>Values of the Python program\<close>

text \<open>
  The exceptions that the modelled code can raise. \<open>IllTyped\<close> is not a Python exception:
  the classes below are modelled with the field types of their annotations
  (\<open>file_type: str\<close>, \<open>page: str\<close>, ...), and \<open>json_decode\<close> hands values of
  type \<open>Any\<close> to their constructors, which store them unchecked. Where the code raises,
  the model returns the exception of the code; where the code returns an object with a
  field that is not of the annotated type, the model has no value for the object and
  returns \<open>IllTyped\<close>. No theorem below reads \<open>IllTyped\<close> as a failure of the program.
\<close>

datatype error = AssertionError | AttributeError | TypeError | KeyError | IllTyped

text \<open>
  \<open>datetime.datetime\<close> of the standard library: the calendar fields and the UTC offset
  in seconds of an aware value (\<open>None\<close> for a naive one).
\<close>

record datetime =
  year :: int
  month :: int
  day :: int
  hour :: int
  minute :: int
  second :: int
  microsecond :: int
  utcoffset :: "int option"

text \<open>\<open>datetime(1970, 1, 1)\<close>\<close>

definition fallback_timestamp :: datetime where
  "fallback_timestamp =
     \<lparr>year = 1970, month = 1, day = 1, hour = 0, minute = 0, second = 0,
      microsecond = 0, utcoffset = None\<rparr>"

text \<open>
  A time point as the program holds it: an instance of \<open>datetime\<close> itself, or of its
  subclass \<open>pywikibot.Timestamp\<close>. Both pass \<open>isinstance(timestamp, datetime)\<close>, and a
  call of \<open>isoformat()\<close> is dispatched on the class: \<open>pywikibot.Timestamp\<close> overrides
  the method.
\<close>

datatype timepoint = Datetime datetime | Timestamp datetime

text \<open>
  A Python \<open>dict\<close> keeps its keys unique and iterates in insertion order: an association
  list with distinct keys. \<open>d[k] = v\<close> is \<open>DAList.update k v d\<close>: the value of an
  existing key is replaced in place, a new key is appended.
\<close>

type_synonym ('k, 'v) dict = "('k, 'v) alist"

definition items :: "('k, 'v) dict \<Rightarrow> ('k \<times> 'v) list" where
  "items d = DAList.impl_of d"

definition keys :: "('k, 'v) dict \<Rightarrow> 'k list" where
  "keys d = map fst (DAList.impl_of d)"

definition values_of :: "('k, 'v) dict \<Rightarrow> 'v list" where
  "values_of d = map snd (DAList.impl_of d)"

text \<open>\<open>k in d\<close>\<close>

definition contains :: "'k \<Rightarrow> ('k, 'v) dict \<Rightarrow> bool" where
  "contains k d = (DAList.lookup d k \<noteq> None)"

section \<open>The data structures\<close>

record FileInfo =
  file_type :: string
  url :: string
  timestamp :: timepoint

text \<open>
  Modelled from the spec: \<open>TranslationProgress\<close> of \<open>pywikitools.fortraininglib\<close>
  is not part of the sources; the spec and the encoder give it the three counts
  \<open>translated\<close>, \<open>fuzzy\<close> and \<open>total\<close>.
\<close>

record TranslationProgress =
  translated :: int
  fuzzy :: int
  total :: int

text \<open>
  The classes of \<open>data_structures.py\<close>. The field \<open>_files\<close> is written \<open>files\<close>,
  and the \<open>language_code\<close> of \<open>LanguageInfo\<close> is written \<open>lang_code\<close>, the name
  \<open>language_code\<close> being the field of \<open>WorksheetInfo\<close>.
\<close>

record WorksheetInfo =
  page :: string
  language_code :: string
  title :: string
  progress :: TranslationProgress
  files :: "(string, FileInfo) dict"

record LanguageInfo =
  lang_code :: string
  worksheets :: "(string, WorksheetInfo) dict"

text \<open>
  \<open>pywikibot.page.FileInfo\<close>, of which the code reads \<open>url\<close> and \<open>timestamp\<close>.
  The timestamp is a \<open>pywikibot.Timestamp\<close>; \<open>pwb_timestamp\<close> holds its fields.
\<close>

record pywikibot_FileInfo =
  pwb_url :: string
  pwb_timestamp :: datetime

text \<open>
  The values that reach the code as \<open>Any\<close>: what \<open>json.loads\<close> builds (numbers
  restricted to integers), time points, and the objects of the four classes.
\<close>

datatype pyval =
    PNone
  | PBool bool
  | PInt int
  | PStr string
  | PList "pyval list"
  | PDict "(string \<times> pyval) list"
  | PDatetime timepoint
  | PFileInfo FileInfo
  | PTranslationProgress TranslationProgress
  | PWorksheetInfo WorksheetInfo
  | PLanguageInfo LanguageInfo

section \<open>FileInfo\<close>

text \<open>\<open>timestamp.replace('Z', '+00:00')\<close>: every occurrence of the character is replaced.\<close>

fun replace_Z :: "string \<Rightarrow> string" where
  "replace_Z [] = []"
| "replace_Z (c # cs) =
     (if c = CHR ''Z'' then ''+00:00'' @ replace_Z cs else c # replace_Z cs)"

text \<open>
  The library functions that the code calls and whose code is not part of the program:
  \<open>datetime.fromisoformat\<close> on a string (\<open>None\<close> is its \<open>ValueError\<close>; the result is
  an instance of \<open>datetime\<close> itself), \<open>datetime.isoformat\<close>, the \<open>isoformat\<close> that
  \<open>pywikibot.Timestamp\<close> overrides, and \<open>urllib.parse.unquote\<close>. The program is
  modelled relative to them.
\<close>

record pylib =
  fromisoformat :: "string \<Rightarrow> datetime option"
  isoformat :: "datetime \<Rightarrow> string"
  Timestamp_isoformat :: "datetime \<Rightarrow> string"
  unquote :: "string \<Rightarrow> string"

text \<open>\<open>timestamp.isoformat()\<close>, dispatched on the class of the time point.\<close>

definition isoformat_of :: "pylib \<Rightarrow> timepoint \<Rightarrow> string" where
  "isoformat_of lib tp =
     (case tp of
        Datetime t \<Rightarrow> isoformat lib t
      | Timestamp t \<Rightarrow> Timestamp_isoformat lib t)"

text \<open>
  \<open>FileInfo.__init__\<close>. An instance of \<open>datetime\<close> or of a subclass is stored as it
  is. A value that is neither a \<open>datetime\<close> nor a string has no attribute \<open>replace\<close>:
  the \<open>AttributeError\<close> is not among the exceptions that the constructor catches. The
  call of the logger is not modelled.
\<close>

definition FileInfo_init :: "pylib \<Rightarrow> string \<Rightarrow> string \<Rightarrow> pyval \<Rightarrow> error + FileInfo" where
  "FileInfo_init lib ft u ts =
     (case ts of
        PDatetime tp \<Rightarrow> Inr \<lparr>file_type = ft, url = u, timestamp = tp\<rparr>
      | PStr s \<Rightarrow>
          (case fromisoformat lib (replace_Z s) of
             Some t \<Rightarrow> Inr \<lparr>file_type = ft, url = u, timestamp = Datetime t\<rparr>
           | None \<Rightarrow>
               Inr \<lparr>file_type = ft, url = u, timestamp = Datetime fallback_timestamp\<rparr>)
      | _ \<Rightarrow> Inl AttributeError)"

section \<open>WorksheetInfo\<close>

definition WorksheetInfo_init ::
  "string \<Rightarrow> string \<Rightarrow> string \<Rightarrow> TranslationProgress \<Rightarrow> WorksheetInfo" where
  "WorksheetInfo_init p lc t pr =
     \<lparr>page = p, language_code = lc, title = t, progress = pr, files = DAList.empty\<rparr>"

text \<open>
  \<open>add_file_info\<close> with its three optional arguments. In the second calling mode the
  timestamp handed to the constructor is the \<open>pywikibot.Timestamp\<close> of the upload.
\<close>

definition add_file_info ::
  "pylib \<Rightarrow> WorksheetInfo \<Rightarrow> FileInfo option \<Rightarrow> string option \<Rightarrow>
   pywikibot_FileInfo option \<Rightarrow> error + WorksheetInfo" where
  "add_file_info lib self file_info ft from_pywikibot =
     (case file_info of
        Some fi \<Rightarrow> Inr (self\<lparr>files := DAList.update (file_type fi) fi (files self)\<rparr>)
      | None \<Rightarrow>
          (case (ft, from_pywikibot) of
             (Some t, Some pwb) \<Rightarrow>
               (case FileInfo_init lib t (unquote lib (pwb_url pwb))
                       (PDatetime (Timestamp (pwb_timestamp pwb))) of
                  Inl e \<Rightarrow> Inl e
                | Inr fi \<Rightarrow> Inr (self\<lparr>files := DAList.update t fi (files self)\<rparr>))
           | _ \<Rightarrow> Inl AssertionError))"

definition get_file_infos :: "WorksheetInfo \<Rightarrow> (string, FileInfo) dict" where
  "get_file_infos self = files self"

definition has_file_type :: "WorksheetInfo \<Rightarrow> string \<Rightarrow> bool" where
  "has_file_type self ft = contains ft (files self)"

definition get_file_type_info :: "WorksheetInfo \<Rightarrow> string \<Rightarrow> FileInfo option" where
  "get_file_type_info self ft =
     (if contains ft (files self) then DAList.lookup (files self) ft else None)"

section \<open>LanguageInfo\<close>

definition LanguageInfo_init :: "string \<Rightarrow> LanguageInfo" where
  "LanguageInfo_init lc = \<lparr>lang_code = lc, worksheets = DAList.empty\<rparr>"

definition add_worksheet_info :: "LanguageInfo \<Rightarrow> string \<Rightarrow> WorksheetInfo \<Rightarrow> LanguageInfo" where
  "add_worksheet_info self name worksheet_info =
     self\<lparr>worksheets := DAList.update name worksheet_info (worksheets self)\<rparr>"

definition has_worksheet :: "LanguageInfo \<Rightarrow> string \<Rightarrow> bool" where
  "has_worksheet self name = contains name (worksheets self)"

definition get_worksheet :: "LanguageInfo \<Rightarrow> string \<Rightarrow> WorksheetInfo option" where
  "get_worksheet self name =
     (if contains name (worksheets self) then DAList.lookup (worksheets self) name else None)"

definition worksheet_has_type :: "LanguageInfo \<Rightarrow> string \<Rightarrow> string \<Rightarrow> bool" where
  "worksheet_has_type self name ft =
     (case DAList.lookup (worksheets self) name of
        Some w \<Rightarrow> has_file_type w ft
      | None \<Rightarrow> False)"

subsection \<open>The change log\<close>

text \<open>
  Modelled from the spec: \<open>ChangeLog\<close> and \<open>ChangeType\<close> of
  \<open>pywikitools.resourcesbot.changes\<close> are not part of the sources. The spec calls the
  change log an ordered collection of change events and lists the event types;
  \<open>add_change\<close> appends one event.
\<close>

datatype ChangeType =
    NEW_WORKSHEET | DELETED_WORKSHEET | UPDATED_WORKSHEET
  | NEW_PDF | DELETED_PDF | UPDATED_PDF
  | NEW_ODT | DELETED_ODT | UPDATED_ODT

type_synonym ChangeLog = "(string \<times> ChangeType) list"

definition add_change :: "string \<Rightarrow> ChangeType \<Rightarrow> ChangeLog \<Rightarrow> ChangeLog" where
  "add_change worksheet change_type change_log = change_log @ [(worksheet, change_type)]"

subsection \<open>compare\<close>

text \<open>
  The body of the loop over \<open>self.worksheets.items()\<close>; the loop variable \<open>title\<close>
  is written \<open>name\<close>, \<open>title\<close> being a field of \<open>WorksheetInfo\<close>.
\<close>

definition compare_item :: "LanguageInfo \<Rightarrow> string \<times> WorksheetInfo \<Rightarrow> ChangeLog \<Rightarrow> ChangeLog" where
  "compare_item old item change_log =
     (case item of (name, info) \<Rightarrow>
        (case DAList.lookup (worksheets old) name of
           Some old_info \<Rightarrow>
             (let log1 =
                (if has_file_type info ''pdf'' then
                   (if \<not> has_file_type old_info ''pdf''
                    then add_change name NEW_PDF change_log else change_log)
                 else if has_file_type old_info ''pdf''
                   then add_change name DELETED_PDF change_log
                 else change_log)
              in
                (if has_file_type info ''odt'' then
                   (if \<not> has_file_type old_info ''odt''
                    then add_change name NEW_ODT log1 else log1)
                 else if has_file_type old_info ''odt''
                   then add_change name DELETED_ODT log1
                 else log1))
         | None \<Rightarrow> add_change name NEW_WORKSHEET change_log))"

text \<open>The body of the loop over \<open>old.worksheets\<close>.\<close>

definition compare_deleted :: "LanguageInfo \<Rightarrow> string \<Rightarrow> ChangeLog \<Rightarrow> ChangeLog" where
  "compare_deleted self worksheet change_log =
     (if \<not> contains worksheet (worksheets self)
      then add_change worksheet DELETED_WORKSHEET change_log else change_log)"

text \<open>
  \<open>compare\<close>: \<open>old\<close> is any value; only a \<open>LanguageInfo\<close> passes the \<open>isinstance\<close>
  test. The warning of the logger is not modelled.
\<close>

definition compare :: "LanguageInfo \<Rightarrow> pyval \<Rightarrow> ChangeLog" where
  "compare self old =
     (case old of
        PLanguageInfo old_info \<Rightarrow>
          fold (compare_deleted self) (keys (worksheets old_info))
            (fold (compare_item old_info) (items (worksheets self)) [])
      | _ \<Rightarrow> [])"

text \<open>
  \<open>list_worksheets_with_missing_pdf\<close>: the comprehension runs over the keys and looks
  each one up again with \<open>self.worksheets[worksheet]\<close>, which raises \<open>KeyError\<close> on
  a missing key.
\<close>

fun missing_pdf_loop :: "LanguageInfo \<Rightarrow> string list \<Rightarrow> error + string list" where
  "missing_pdf_loop self [] = Inr []"
| "missing_pdf_loop self (worksheet # rest) =
     (case DAList.lookup (worksheets self) worksheet of
        None \<Rightarrow> Inl KeyError
      | Some info \<Rightarrow>
          (case missing_pdf_loop self rest of
             Inl e \<Rightarrow> Inl e
           | Inr out \<Rightarrow> Inr (if \<not> has_file_type info ''pdf'' then worksheet # out else out)))"

definition list_worksheets_with_missing_pdf :: "LanguageInfo \<Rightarrow> error + string list" where
  "list_worksheets_with_missing_pdf self = missing_pdf_loop self (keys (worksheets self))"

definition count_finished_translations :: "LanguageInfo \<Rightarrow> nat" where
  "count_finished_translations self =
     fold (\<lambda>worksheet_info count. if has_file_type worksheet_info ''pdf'' then count + 1 else count)
       (values_of (worksheets self)) 0"

section \<open>The codec\<close>

text \<open>
  Modelled from the spec: the constructor of \<open>TranslationProgress\<close> is not part of the
  sources. \<open>json_decode\<close> calls it with the entries of the mapping as keyword
  arguments, and the spec has it build the record from the mapping's fields directly:
  the three counts are read from the mapping, a missing one is the \<open>TypeError\<close> of a
  call without a required argument, and other entries are not looked at.
\<close>

definition TranslationProgress_init :: "(string \<times> pyval) list \<Rightarrow> error + TranslationProgress" where
  "TranslationProgress_init data =
     (case (map_of data ''translated'', map_of data ''fuzzy'', map_of data ''total'') of
        (Some (PInt t), Some (PInt f), Some (PInt n)) \<Rightarrow>
          Inr \<lparr>translated = t, fuzzy = f, total = n\<rparr>
      | (Some _, Some _, Some _) \<Rightarrow> Inl IllTyped
      | _ \<Rightarrow> Inl TypeError)"

text \<open>\<open>k in data\<close> for a mapping given by its entries.\<close>

definition has_key :: "string \<Rightarrow> (string \<times> pyval) list \<Rightarrow> bool" where
  "has_key k data = (map_of data k \<noteq> None)"

text \<open>
  What a \<open>for\<close> loop runs over: the elements of a list, the keys of a dict, the
  characters of a string; any other value of the model is not iterable.
\<close>

definition py_iter :: "pyval \<Rightarrow> error + pyval list" where
  "py_iter v =
     (case v of
        PList xs \<Rightarrow> Inr xs
      | PDict kvs \<Rightarrow> Inr (map (\<lambda>kv. PStr (fst kv)) kvs)
      | PStr s \<Rightarrow> Inr (map (\<lambda>c. PStr [c]) s)
      | _ \<Rightarrow> Inl TypeError)"

text \<open>The loop over \<open>data["files"]\<close>.\<close>

fun decode_files :: "pylib \<Rightarrow> WorksheetInfo \<Rightarrow> pyval list \<Rightarrow> error + WorksheetInfo" where
  "decode_files lib worksheet_info [] = Inr worksheet_info"
| "decode_files lib worksheet_info (file_info # rest) =
     (case file_info of
        PFileInfo fi \<Rightarrow>
          (case add_file_info lib worksheet_info (Some fi) None None of
             Inl e \<Rightarrow> Inl e
           | Inr w \<Rightarrow> decode_files lib w rest)
      | _ \<Rightarrow> Inl AssertionError)"

text \<open>The loop over \<open>data["worksheets"]\<close>.\<close>

fun decode_worksheets :: "LanguageInfo \<Rightarrow> pyval list \<Rightarrow> error + LanguageInfo" where
  "decode_worksheets language_info [] = Inr language_info"
| "decode_worksheets language_info (worksheet # rest) =
     (case worksheet of
        PWorksheetInfo w \<Rightarrow> decode_worksheets (add_worksheet_info language_info (page w) w) rest
      | _ \<Rightarrow> Inl AssertionError)"

text \<open>
  A call whose arguments do not all fit the annotations of the typed model: it raises as
  the code does, and where the code returns, the object is outside the model.
\<close>

definition outside_model :: "error + 'a \<Rightarrow> error + pyval" where
  "outside_model r = (case r of Inl e \<Rightarrow> Inl e | Inr obj \<Rightarrow> Inl IllTyped)"

text \<open>\<open>if "files" in data:\<close> with its loop, on the worksheet just constructed.\<close>

definition decode_worksheet_files ::
  "pylib \<Rightarrow> (string \<times> pyval) list \<Rightarrow> WorksheetInfo \<Rightarrow> error + WorksheetInfo" where
  "decode_worksheet_files lib data worksheet_info =
     (case map_of data ''files'' of
        Some fs \<Rightarrow>
          (case py_iter fs of
             Inl e \<Rightarrow> Inl e
           | Inr entries \<Rightarrow> decode_files lib worksheet_info entries)
      | None \<Rightarrow> Inr worksheet_info)"

text \<open>The loop over \<open>data["worksheets"]\<close>, on the language just constructed.\<close>

definition decode_language_worksheets :: "pyval \<Rightarrow> LanguageInfo \<Rightarrow> error + LanguageInfo" where
  "decode_language_worksheets ws language_info =
     (case py_iter ws of
        Inl e \<Rightarrow> Inl e
      | Inr entries \<Rightarrow> decode_worksheets language_info entries)"

text \<open>An argument for a parameter annotated \<open>str\<close>: the string, if the value is one.\<close>

definition str_arg :: "pyval option \<Rightarrow> string option" where
  "str_arg v = (case v of Some (PStr s) \<Rightarrow> Some s | _ \<Rightarrow> None)"

text \<open>
  \<open>json_decode\<close>. An \<open>assert k in data\<close> is the case distinction on the lookup of
  \<open>k\<close>. The constructors cannot raise on \<open>file_type\<close>, \<open>url\<close>, \<open>page\<close>,
  \<open>language_code\<close> and \<open>title\<close>, whatever values they are given; when one of them
  is not a string, the rest of the branch runs on an object with empty strings in their
  place, for the exceptions it raises, and its result is \<open>outside_model\<close>.
\<close>

definition json_decode :: "pylib \<Rightarrow> (string \<times> pyval) list \<Rightarrow> error + pyval" where
  "json_decode lib data =
     (if has_key ''file_type'' data then
        (case (map_of data ''url'', map_of data ''timestamp'') of
           (Some url_value, Some ts) \<Rightarrow>
             (case (str_arg (map_of data ''file_type''), str_arg (Some url_value)) of
                (Some ft, Some u) \<Rightarrow> map_sum id PFileInfo (FileInfo_init lib ft u ts)
              | _ \<Rightarrow> outside_model (FileInfo_init lib [] [] ts))
         | _ \<Rightarrow> Inl AssertionError)
      else if has_key ''translated'' data then
        map_sum id PTranslationProgress (TranslationProgress_init data)
      else if has_key ''page'' data then
        (if \<not> (has_key ''language_code'' data \<and> has_key ''title'' data
                \<and> has_key ''progress'' data) then Inl AssertionError
         else
           (case map_of data ''progress'' of
              Some (PTranslationProgress pr) \<Rightarrow>
                (case (str_arg (map_of data ''page''), str_arg (map_of data ''language_code''),
                       str_arg (map_of data ''title'')) of
                   (Some p, Some lc, Some t) \<Rightarrow>
                     map_sum id PWorksheetInfo
                       (decode_worksheet_files lib data (WorksheetInfo_init p lc t pr))
                 | _ \<Rightarrow>
                     outside_model
                       (decode_worksheet_files lib data (WorksheetInfo_init [] [] [] pr)))
            | _ \<Rightarrow> Inl AssertionError))
      else if has_key ''worksheets'' data then
        (case (map_of data ''language_code'', map_of data ''worksheets'') of
           (Some lc_value, Some ws) \<Rightarrow>
             (case str_arg (Some lc_value) of
                Some lc \<Rightarrow>
                  map_sum id PLanguageInfo
                    (decode_language_worksheets ws (LanguageInfo_init lc))
              | None \<Rightarrow> outside_model (decode_language_worksheets ws (LanguageInfo_init [])))
         | _ \<Rightarrow> Inl AssertionError)
      else Inr (PDict data))"

text \<open>
  \<open>WorksheetInfoEncoder.default\<close>; \<open>super().default(obj)\<close> raises \<open>TypeError\<close>.
\<close>

definition WorksheetInfoEncoder_default :: "pylib \<Rightarrow> pyval \<Rightarrow> error + pyval" where
  "WorksheetInfoEncoder_default lib obj =
     (case obj of
        PLanguageInfo li \<Rightarrow>
          Inr (PDict [(''language_code'', PStr (lang_code li)),
                      (''worksheets'', PList (map PWorksheetInfo (values_of (worksheets li))))])
      | PWorksheetInfo w \<Rightarrow>
          (let worksheet_json =
                 [(''page'', PStr (page w)),
                  (''language_code'', PStr (language_code w)),
                  (''title'', PStr (title w)),
                  (''progress'', PTranslationProgress (progress w))];
               file_infos = get_file_infos w
           in Inr (PDict (if items file_infos \<noteq> []
                          then AList.update ''files'' (PList (map PFileInfo (values_of file_infos)))
                                 worksheet_json
                          else worksheet_json)))
      | PFileInfo f \<Rightarrow>
          Inr (PDict [(''file_type'', PStr (file_type f)), (''url'', PStr (url f)),
                      (''timestamp'', PStr (isoformat_of lib (timestamp f)))])
      | PTranslationProgress p \<Rightarrow>
          Inr (PDict [(''translated'', PInt (translated p)), (''fuzzy'', PInt (fuzzy p)),
                      (''total'', PInt (total p))])
      | _ \<Rightarrow> Inl TypeError)"

subsection \<open>Writing and reading the JSON document\<close>

text \<open>
  The document that \<open>json.dumps\<close> writes and \<open>json.loads\<close> reads, as a tree.
\<close>

datatype json =
    JNull
  | JBool bool
  | JInt int
  | JString string
  | JArray "json list"
  | JObject "(string \<times> json) list"

text \<open>The results of a sequence of steps, up to the first one that raises.\<close>

fun collect :: "(error + 'a) list \<Rightarrow> error + 'a list" where
  "collect [] = Inr []"
| "collect (x # xs) =
     (case x of
        Inl e \<Rightarrow> Inl e
      | Inr v \<Rightarrow> (case collect xs of Inl e \<Rightarrow> Inl e | Inr vs \<Rightarrow> Inr (v # vs)))"

text \<open>
  The nesting of objects of the four classes in a value; it decreases when
  \<open>WorksheetInfoEncoder.default\<close> replaces an object by a dict of its fields.
\<close>

fun nesting :: "pyval \<Rightarrow> nat" where
  "nesting (PList xs) = foldr max (map nesting xs) 0"
| "nesting (PDict kvs) = foldr max (map (\<lambda>kv. nesting (snd kv)) kvs) 0"
| "nesting (PFileInfo f) = 1"
| "nesting (PTranslationProgress p) = 1"
| "nesting (PWorksheetInfo w) = 2"
| "nesting (PLanguageInfo li) = 3"
| "nesting v = 0"

text \<open>
  \<open>json.dumps(obj, cls=WorksheetInfoEncoder)\<close>: the encoder of the standard library
  writes the JSON values itself and calls \<open>default\<close> on every other object, then writes
  what \<open>default\<close> returned.
\<close>

function (sequential) dumps_tree :: "pylib \<Rightarrow> pyval \<Rightarrow> error + json" where
  "dumps_tree lib PNone = Inr JNull"
| "dumps_tree lib (PBool b) = Inr (JBool b)"
| "dumps_tree lib (PInt i) = Inr (JInt i)"
| "dumps_tree lib (PStr s) = Inr (JString s)"
| "dumps_tree lib (PList xs) = map_sum id JArray (collect (map (dumps_tree lib) xs))"
| "dumps_tree lib (PDict kvs) =
     map_sum id JObject
       (collect (map (\<lambda>kv. map_sum id (Pair (fst kv)) (dumps_tree lib (snd kv))) kvs))"
| "dumps_tree lib obj =
     (case WorksheetInfoEncoder_default lib obj of
        Inl e \<Rightarrow> Inl e
      | Inr v \<Rightarrow> dumps_tree lib v)"
  by pat_completeness auto
termination
proof (relation "measures [\<lambda>p. nesting (snd p), \<lambda>p. size (snd p)]", goal_cases)
  have ge: "x \<in> set xs \<Longrightarrow> f x \<le> foldr max (map f xs) (0::nat)" for x :: 'a and xs f
    by (induction xs) auto
  have le: "(\<And>x. x \<in> set xs \<Longrightarrow> f x \<le> n) \<Longrightarrow> foldr max (map f xs) (0::nat) \<le> n"
    for xs :: "'a list" and f n
    by (induction xs) auto
  have size_list: "x \<in> set xs \<Longrightarrow> size x < size (PList xs)" for x xs
    by (induction xs) auto
  have size_dict: "kv \<in> set kvs \<Longrightarrow> size (snd kv) < size (PDict kvs)" for kv kvs
    by (induction kvs) auto
  have files_le: "foldr max (map (nesting \<circ> PFileInfo) fs) 0 \<le> 1" for fs
    by (rule le) simp
  have files_less: "foldr max (map (nesting \<circ> PFileInfo) fs) 0 < 2" for fs
    by (rule le_less_trans[OF files_le]) simp
  have sheets_le: "foldr max (map (nesting \<circ> PWorksheetInfo) ws) 0 \<le> 2" for ws
    by (rule le) simp
  have sheets_less: "foldr max (map (nesting \<circ> PWorksheetInfo) ws) 0 < 3" for ws
    by (rule le_less_trans[OF sheets_le]) simp
  have decr: "nesting v < nesting obj"
    if "WorksheetInfoEncoder_default lib obj = Inr v" for lib obj v
    using that files_less sheets_less
    by (cases obj) (auto simp: WorksheetInfoEncoder_default_def Let_def split: if_splits)
  {
    case 1
    show ?case by simp
  next
    case (2 lib xs x)
    then show ?case using ge[of x xs nesting] size_list[of x xs] by auto
  next
    case (3 lib kvs kv)
    then show ?case
      using ge[of kv kvs "\<lambda>kv. nesting (snd kv)"] size_dict[of kv kvs] by auto
  next
    case (4 lib obj v)
    then show ?case by (auto dest: decr)
  next
    case (5 lib obj v)
    then show ?case by (auto dest: decr)
  next
    case (6 lib obj v)
    then show ?case by (auto dest: decr)
  next
    case (7 lib obj v)
    then show ?case by (auto dest: decr)
  next
    case (8 lib obj v)
    then show ?case by (auto dest: decr)
  }
qed

text \<open>
  The dict that the JSON reader builds from the members of an object: a repeated name
  keeps its first position and takes the last value.
\<close>

definition dict_of_pairs :: "(string \<times> pyval) list \<Rightarrow> (string \<times> pyval) list" where
  "dict_of_pairs pairs = fold (\<lambda>kv d. AList.update (fst kv) (snd kv) d) pairs []"

text \<open>
  \<open>json.loads(text, object_hook=json_decode)\<close>: every object of the document is read
  with its members first, and \<open>json_decode\<close> is applied to the dict of the decoded
  members.
\<close>

fun loads_tree :: "pylib \<Rightarrow> json \<Rightarrow> error + pyval" where
  "loads_tree lib JNull = Inr PNone"
| "loads_tree lib (JBool b) = Inr (PBool b)"
| "loads_tree lib (JInt i) = Inr (PInt i)"
| "loads_tree lib (JString s) = Inr (PStr s)"
| "loads_tree lib (JArray xs) = map_sum id PList (collect (map (loads_tree lib) xs))"
| "loads_tree lib (JObject kvs) =
     (case collect (map (\<lambda>kv. map_sum id (Pair (fst kv)) (loads_tree lib (snd kv))) kvs) of
        Inl e \<Rightarrow> Inl e
      | Inr pairs \<Rightarrow> json_decode lib (dict_of_pairs pairs))"

section \<open>The properties as the specification words them\<close>

text \<open>
  The events that the specification expects of \<open>self.compare(older)\<close>, for a worksheet
  name \<open>w\<close> and an event type \<open>t\<close>: a new worksheet is present now and absent before, a
  deleted one is absent now and present before, and for a worksheet present in both a file
  type is new when present now and absent before, deleted when absent now and present
  before. Nothing else is expected.
\<close>

definition expected_event :: "LanguageInfo \<Rightarrow> LanguageInfo \<Rightarrow> string \<Rightarrow> ChangeType \<Rightarrow> bool" where
  "expected_event self older w t =
     (case t of
        NEW_WORKSHEET \<Rightarrow> has_worksheet self w \<and> \<not> has_worksheet older w
      | DELETED_WORKSHEET \<Rightarrow> has_worksheet older w \<and> \<not> has_worksheet self w
      | NEW_PDF \<Rightarrow> has_worksheet self w \<and> has_worksheet older w
                   \<and> worksheet_has_type self w ''pdf'' \<and> \<not> worksheet_has_type older w ''pdf''
      | DELETED_PDF \<Rightarrow> has_worksheet self w \<and> has_worksheet older w
                   \<and> \<not> worksheet_has_type self w ''pdf'' \<and> worksheet_has_type older w ''pdf''
      | NEW_ODT \<Rightarrow> has_worksheet self w \<and> has_worksheet older w
                   \<and> worksheet_has_type self w ''odt'' \<and> \<not> worksheet_has_type older w ''odt''
      | DELETED_ODT \<Rightarrow> has_worksheet self w \<and> has_worksheet older w
                   \<and> \<not> worksheet_has_type self w ''odt'' \<and> worksheet_has_type older w ''odt''
      | _ \<Rightarrow> False)"


text \<open>\<open>isinstance(old, LanguageInfo)\<close>\<close>

definition isinstance_LanguageInfo :: "pyval \<Rightarrow> bool" where
  "isinstance_LanguageInfo v = (case v of PLanguageInfo li \<Rightarrow> True | _ \<Rightarrow> False)"

section \<open>Sequences of calls of add_file_info\<close>

text \<open>
  The arguments of one call of \<open>add_file_info\<close>, and the object after the call: the
  method updates the object in place, and a call that raises leaves it as it was.
\<close>

type_synonym add_file_info_args = "FileInfo option \<times> string option \<times> pywikibot_FileInfo option"

definition call_add_file_info :: "pylib \<Rightarrow> WorksheetInfo \<Rightarrow> add_file_info_args \<Rightarrow> WorksheetInfo" where
  "call_add_file_info lib self args =
     (case args of (file_info, ft, from_pywikibot) \<Rightarrow>
        (case add_file_info lib self file_info ft from_pywikibot of
           Inr w \<Rightarrow> w
         | Inl e \<Rightarrow> self))"

definition after_calls :: "pylib \<Rightarrow> WorksheetInfo \<Rightarrow> add_file_info_args list \<Rightarrow> WorksheetInfo" where
  "after_calls lib self calls = fold (\<lambda>args w. call_add_file_info lib w args) calls self"

text \<open>Every entry of the files mapping is stored under its own \<open>file_type\<close>.\<close>

definition keyed_by_file_type :: "WorksheetInfo \<Rightarrow> bool" where
  "keyed_by_file_type w = list_all (\<lambda>kv. file_type (snd kv) = fst kv) (items (files w))"

section \<open>The codec as the specification words it\<close>

text \<open>\<open>isinstance(v, FileInfo)\<close> and \<open>isinstance(v, WorksheetInfo)\<close>\<close>

definition is_FileInfo :: "pyval \<Rightarrow> bool" where
  "is_FileInfo v = (case v of PFileInfo f \<Rightarrow> True | _ \<Rightarrow> False)"

definition is_WorksheetInfo :: "pyval \<Rightarrow> bool" where
  "is_WorksheetInfo v = (case v of PWorksheetInfo w \<Rightarrow> True | _ \<Rightarrow> False)"

text \<open>
  The documents of the specification's encoding: a progress record is
  \<open>{translated, fuzzy, total}\<close>, a \<open>FileInfo\<close> is \<open>{file_type, url, timestamp}\<close> with
  the ISO string of the timestamp, a \<open>WorksheetInfo\<close> is
  \<open>{page, language_code, title, progress}\<close> plus \<open>files\<close> only when there are files, a
  \<open>LanguageInfo\<close> is \<open>{language_code, worksheets}\<close>, lists in iteration order.
\<close>

definition json_TranslationProgress :: "TranslationProgress \<Rightarrow> json" where
  "json_TranslationProgress p =
     JObject [(''translated'', JInt (translated p)), (''fuzzy'', JInt (fuzzy p)),
              (''total'', JInt (total p))]"

definition json_FileInfo :: "pylib \<Rightarrow> FileInfo \<Rightarrow> json" where
  "json_FileInfo lib f =
     JObject [(''file_type'', JString (file_type f)), (''url'', JString (url f)),
              (''timestamp'', JString (isoformat_of lib (timestamp f)))]"

definition json_WorksheetInfo :: "pylib \<Rightarrow> WorksheetInfo \<Rightarrow> json" where
  "json_WorksheetInfo lib w =
     JObject ([(''page'', JString (page w)), (''language_code'', JString (language_code w)),
               (''title'', JString (title w)),
               (''progress'', json_TranslationProgress (progress w))]
              @ (if values_of (files w) = [] then []
                 else [(''files'', JArray (map (json_FileInfo lib) (values_of (files w))))]))"

definition json_LanguageInfo :: "pylib \<Rightarrow> LanguageInfo \<Rightarrow> json" where
  "json_LanguageInfo lib x =
     JObject [(''language_code'', JString (lang_code x)),
              (''worksheets'', JArray (map (json_WorksheetInfo lib) (values_of (worksheets x))))]"

text \<open>
  The timestamps of all files are instances of \<open>datetime\<close> itself, not of
  \<open>pywikibot.Timestamp\<close>.
\<close>

definition is_datetime_itself :: "timepoint \<Rightarrow> bool" where
  "is_datetime_itself tp = (case tp of Datetime t \<Rightarrow> True | Timestamp t \<Rightarrow> False)"

definition plain_timestamps :: "LanguageInfo \<Rightarrow> bool" where
  "plain_timestamps x =
     list_all (\<lambda>w. list_all (\<lambda>f. is_datetime_itself (timestamp f)) (values_of (files w)))
       (values_of (worksheets x))"

text \<open>Every worksheet is stored under its own \<open>page\<close>.\<close>

definition keyed_by_page :: "LanguageInfo \<Rightarrow> bool" where
  "keyed_by_page x = list_all (\<lambda>kv. page (snd kv) = fst kv) (items (worksheets x))"


section \<open>Example objects\<close>

definition example_timestamp :: datetime where
  "example_timestamp =
     \<lparr>year = 2021, month = 5, day = 1, hour = 12, minute = 0, second = 0,
      microsecond = 0, utcoffset = None\<rparr>"

text \<open>
  An instance of the library functions at two time points: \<open>datetime.isoformat\<close> writes
  no zone for a naive value, \<open>pywikibot.Timestamp.isoformat\<close> ends in \<open>Z\<close>, and
  \<open>datetime.fromisoformat\<close> reads the offset \<open>+00:00\<close> as an aware value.
\<close>

definition example_lib :: pylib where
  "example_lib =
     \<lparr>fromisoformat =
        (\<lambda>s. if s = ''2021-05-01T12:00:00'' then Some example_timestamp
             else if s = ''2021-05-01T12:00:00+00:00''
               then Some (example_timestamp\<lparr>utcoffset := Some 0\<rparr>)
             else if s = ''1970-01-01T00:00:00'' then Some fallback_timestamp
             else None),
      isoformat =
        (\<lambda>t. if t = example_timestamp then ''2021-05-01T12:00:00''
             else if t = example_timestamp\<lparr>utcoffset := Some 0\<rparr>
               then ''2021-05-01T12:00:00+00:00''
             else ''1970-01-01T00:00:00''),
      Timestamp_isoformat =
        (\<lambda>t. if t = example_timestamp then ''2021-05-01T12:00:00Z''
             else ''1970-01-01T00:00:00Z''),
      unquote = (\<lambda>s. s)\<rparr>"

definition example_progress :: TranslationProgress where
  "example_progress = \<lparr>translated = 5, fuzzy = 0, total = 5\<rparr>"

definition example_pdf :: FileInfo where
  "example_pdf =
     \<lparr>file_type = ''pdf'', url = ''https://www.4training.net/Prayer.pdf'',
      timestamp = Datetime example_timestamp\<rparr>"

definition example_pdf_newer :: FileInfo where
  "example_pdf_newer =
     \<lparr>file_type = ''pdf'', url = ''https://www.4training.net/Prayer_v2.pdf'',
      timestamp = Datetime example_timestamp\<rparr>"

definition example_odt_upload :: pywikibot_FileInfo where
  "example_odt_upload =
     \<lparr>pwb_url = ''https://www.4training.net/Prayer.odt'', pwb_timestamp = example_timestamp\<rparr>"

definition example_worksheet :: WorksheetInfo where
  "example_worksheet = WorksheetInfo_init ''Prayer'' ''de'' ''Gebet'' example_progress"

definition example_worksheet_pdf :: WorksheetInfo where
  "example_worksheet_pdf =
     call_add_file_info example_lib
       (WorksheetInfo_init ''Forgiveness'' ''de'' ''Vergebung'' example_progress)
       (Some example_pdf, None, None)"

text \<open>A language with two worksheets, each stored under its page name.\<close>

definition example_language :: LanguageInfo where
  "example_language =
     add_worksheet_info
       (add_worksheet_info (LanguageInfo_init ''de'') ''Forgiveness'' example_worksheet_pdf)
       ''Prayer'' example_worksheet"

text \<open>The worksheet of page \<open>Prayer\<close> stored under its translated title.\<close>

definition example_misfiled :: LanguageInfo where
  "example_misfiled = add_worksheet_info (LanguageInfo_init ''de'') ''Gebet'' example_worksheet"

text \<open>
  The worksheet of page \<open>Prayer\<close> with an odt file added from an upload, in the second
  calling mode of \<open>add_file_info\<close>, and the same worksheet with the file as it is
  decoded.
\<close>

definition example_uploaded :: LanguageInfo where
  "example_uploaded =
     add_worksheet_info (LanguageInfo_init ''de'') ''Prayer''
       (call_add_file_info example_lib example_worksheet
          (None, Some ''odt'', Some example_odt_upload))"

definition example_uploaded_decoded :: LanguageInfo where
  "example_uploaded_decoded =
     add_worksheet_info (LanguageInfo_init ''de'') ''Prayer''
       (call_add_file_info example_lib example_worksheet
          (Some \<lparr>file_type = ''odt'', url = ''https://www.4training.net/Prayer.odt'',
                  timestamp = Datetime (example_timestamp\<lparr>utcoffset := Some 0\<rparr>)\<rparr>,
           None, None))"

subsection \<open>A library instance on all time points\<close>

text \<open>
  An instance of the library functions with a text format of its own, defined on every
  time point: each field is written as a sign, as many strokes as its absolute value and a
  semicolon, and the offset follows the letter \<open>s\<close>, or \<open>n\<close> stands for none.
\<close>

definition tally :: "int \<Rightarrow> string" where
  "tally i =
     (if i < 0 then CHR ''-'' else CHR ''+'') # replicate (nat \<bar>i\<bar>) (CHR ''1'') @ '';''"

definition untally :: "string \<Rightarrow> (int \<times> string) option" where
  "untally s =
     (case s of
        [] \<Rightarrow> None
      | c # r \<Rightarrow>
          (if c = CHR ''-'' \<or> c = CHR ''+'' then
             (case dropWhile (\<lambda>x. x = CHR ''1'') r of
                [] \<Rightarrow> None
              | d # rest \<Rightarrow>
                  (if d = CHR '';'' then
                     Some ((if c = CHR ''-'' then - 1 else 1)
                             * int (length (takeWhile (\<lambda>x. x = CHR ''1'') r)), rest)
                   else None))
           else None))"

definition tally_isoformat :: "datetime \<Rightarrow> string" where
  "tally_isoformat t =
     tally (year t) @ tally (month t) @ tally (day t) @ tally (hour t) @ tally (minute t)
     @ tally (second t) @ tally (microsecond t)
     @ (case utcoffset t of None \<Rightarrow> ''n'' | Some off \<Rightarrow> CHR ''s'' # tally off)"

definition untally_offset :: "string \<Rightarrow> int option option" where
  "untally_offset s =
     (if s = ''n'' then Some None
      else (case s of
              [] \<Rightarrow> None
            | c # r \<Rightarrow>
                (if c = CHR ''s'' then
                   (case untally r of
                      Some (off, rest) \<Rightarrow> (if rest = [] then Some (Some off) else None)
                    | None \<Rightarrow> None)
                 else None)))"

definition tally_fromisoformat :: "string \<Rightarrow> datetime option" where
  "tally_fromisoformat s0 =
     (case untally s0 of None \<Rightarrow> None | Some (y, s1) \<Rightarrow>
      case untally s1 of None \<Rightarrow> None | Some (mo, s2) \<Rightarrow>
      case untally s2 of None \<Rightarrow> None | Some (d, s3) \<Rightarrow>
      case untally s3 of None \<Rightarrow> None | Some (h, s4) \<Rightarrow>
      case untally s4 of None \<Rightarrow> None | Some (mi, s5) \<Rightarrow>
      case untally s5 of None \<Rightarrow> None | Some (sec, s6) \<Rightarrow>
      case untally s6 of None \<Rightarrow> None | Some (us, s7) \<Rightarrow>
      case untally_offset s7 of None \<Rightarrow> None | Some off \<Rightarrow>
        Some \<lparr>year = y, month = mo, day = d, hour = h, minute = mi, second = sec,
              microsecond = us, utcoffset = off\<rparr>)"

definition tally_lib :: pylib where
  "tally_lib =
     \<lparr>fromisoformat = tally_fromisoformat,
      isoformat = tally_isoformat,
      Timestamp_isoformat = (\<lambda>t. tally_isoformat t @ ''Z''),
      unquote = (\<lambda>s. s)\<rparr>"

section \<open>Dictionaries\<close>

lemma lookup_items: "(k, v) \<in> set (items d) \<Longrightarrow> DAList.lookup d k = Some v"
  by (simp add: items_def DAList.lookup.rep_eq)

lemma contains_keys: "contains k d \<longleftrightarrow> k \<in> set (keys d)"
  by (auto simp: contains_def keys_def DAList.lookup.rep_eq map_of_eq_None_iff
      intro: weak_map_of_SomeI)


section \<open>The events of compare\<close>

lemma compare_item_append: "compare_item old item log = log @ compare_item old item []"
  by (cases item) (simp add: compare_item_def add_change_def Let_def split: option.splits)

lemma fold_compare_item:
  "fold (compare_item old) xs log = log @ concat (map (\<lambda>item. compare_item old item []) xs)"
proof (induction xs arbitrary: log)
  case Nil
  show ?case by simp
next
  case (Cons x xs)
  show ?case
    using Cons.IH[of "compare_item old x log"] compare_item_append[of old x log] by simp
qed

lemma fold_compare_deleted:
  "fold (compare_deleted self) ks log =
     log @ map (\<lambda>w. (w, DELETED_WORKSHEET)) (filter (\<lambda>w. \<not> contains w (worksheets self)) ks)"
  by (induction ks arbitrary: log) (simp_all add: compare_deleted_def add_change_def)

lemma compare_eq:
  "compare self (PLanguageInfo old) =
     concat (map (\<lambda>item. compare_item old item []) (items (worksheets self)))
     @ map (\<lambda>w. (w, DELETED_WORKSHEET))
         (filter (\<lambda>w. \<not> has_worksheet self w) (keys (worksheets old)))"
  by (simp add: compare_def fold_compare_item fold_compare_deleted has_worksheet_def)

lemma compare_item_names: "e \<in> set (compare_item old (name, info) []) \<Longrightarrow> fst e = name"
  by (auto simp: compare_item_def add_change_def Let_def split: option.splits if_splits)

lemma count_list_concat_names:
  assumes "distinct (map fst xs)"
    and "\<And>x e. x \<in> set xs \<Longrightarrow> e \<in> set (f x) \<Longrightarrow> fst e = fst x"
  shows "count_list (concat (map f xs)) (w, t) =
           (case map_of xs w of None \<Rightarrow> 0 | Some v \<Rightarrow> count_list (f (w, v)) (w, t))"
  using assms
proof (induction xs)
  case Nil
  show ?case by simp
next
  case (Cons x xs)
  obtain k v where x: "x = (k, v)" by (cases x)
  show ?case
  proof (cases "k = w")
    case True
    with Cons.prems(1) x have "map_of xs w = None"
      by (simp add: map_of_eq_None_iff)
    moreover have "count_list (concat (map f xs)) (w, t) =
        (case map_of xs w of None \<Rightarrow> 0 | Some v \<Rightarrow> count_list (f (w, v)) (w, t))"
      using Cons.IH Cons.prems by simp
    ultimately show ?thesis using True x by simp
  next
    case False
    have "(w, t) \<notin> set (f x)"
      using Cons.prems(2)[of x "(w, t)"] False x by auto
    then have "count_list (f x) (w, t) = 0" by (simp add: count_list_0_iff)
    moreover have "count_list (concat (map f xs)) (w, t) =
        (case map_of xs w of None \<Rightarrow> 0 | Some v \<Rightarrow> count_list (f (w, v)) (w, t))"
      using Cons.IH Cons.prems by simp
    ultimately show ?thesis using False x by simp
  qed
qed

lemma count_list_map_inj:
  "distinct ks \<Longrightarrow> count_list (map (\<lambda>w. (w, c)) ks) (w, t) = (if w \<in> set ks \<and> t = c then 1 else 0)"
  by (induction ks) auto

lemma count_compare_item:
  "count_list (compare_item old (w, info) []) (w, t) =
     (case DAList.lookup (worksheets old) w of
        None \<Rightarrow> (if t = NEW_WORKSHEET then 1 else 0)
      | Some old_info \<Rightarrow>
          (if t = NEW_PDF \<and> has_file_type info ''pdf'' \<and> \<not> has_file_type old_info ''pdf'' then 1
           else if t = DELETED_PDF \<and> \<not> has_file_type info ''pdf'' \<and> has_file_type old_info ''pdf'' then 1
           else if t = NEW_ODT \<and> has_file_type info ''odt'' \<and> \<not> has_file_type old_info ''odt'' then 1
           else if t = DELETED_ODT \<and> \<not> has_file_type info ''odt'' \<and> has_file_type old_info ''odt'' then 1
           else 0))"
  by (simp add: compare_item_def add_change_def Let_def split: option.splits)


text \<open>
  C1: for two \<open>LanguageInfo\<close> objects, \<open>self.compare(older)\<close> emits exactly the
  expected events: each event of \<open>expected_event\<close> occurs once in the change log, and
  every other pair of a worksheet name and an event type does not occur.
\<close>

theorem compare_emits_exactly:
  "count_list (compare self (PLanguageInfo older)) (w, t) =
     (if expected_event self older w t then 1 else 0)"
proof -
  let ?xs = "items (worksheets self)"
  have d: "distinct (map fst ?xs)" by (simp add: items_def)
  have n: "fst e = fst x" if "x \<in> set ?xs" "e \<in> set (compare_item older x [])" for x e
    using that compare_item_names[of e older "fst x" "snd x"] by simp
  have first: "count_list (concat (map (\<lambda>item. compare_item older item []) ?xs)) (w, t) =
      (case DAList.lookup (worksheets self) w of None \<Rightarrow> 0
       | Some v \<Rightarrow> count_list (compare_item older (w, v) []) (w, t))"
    using count_list_concat_names[OF d n, where w = w and t = t]
    by (simp add: items_def DAList.lookup.rep_eq)
  have second: "count_list (map (\<lambda>w. (w, DELETED_WORKSHEET))
         (filter (\<lambda>w. \<not> has_worksheet self w) (keys (worksheets older)))) (w, t) =
      (if contains w (worksheets older) \<and> \<not> has_worksheet self w \<and> t = DELETED_WORKSHEET
       then 1 else 0)"
    by (subst count_list_map_inj) (auto simp: keys_def contains_keys distinct_map_filter)
  show ?thesis
    unfolding compare_eq count_list_append first second count_compare_item
    by (cases t)
      (auto simp: expected_event_def has_worksheet_def worksheet_has_type_def contains_def
        split: option.splits)
qed


text \<open>
  C4: when \<open>older\<close> is not a \<open>LanguageInfo\<close>, \<open>compare\<close> returns the empty change
  log; the model of \<open>compare\<close> is total, no exception is an outcome.
\<close>

theorem compare_not_LanguageInfo:
  "\<not> isinstance_LanguageInfo older \<Longrightarrow> compare self older = []"
  by (cases older) (simp_all add: isinstance_LanguageInfo_def compare_def)

theorem compare_not_LanguageInfo_witness:
  "\<not> isinstance_LanguageInfo (PStr ''de'') \<and>
   compare (LanguageInfo_init ''de'') (PStr ''de'') = []"
  using compare_not_LanguageInfo[of "PStr ''de''" "LanguageInfo_init ''de''"]
  by (simp add: isinstance_LanguageInfo_def)

text \<open>
  C9: comparing a \<open>LanguageInfo\<close> with itself emits no event.
\<close>

theorem compare_self_empty: "compare x (PLanguageInfo x) = []"
proof -
  have "compare_item x item [] = []" if "item \<in> set (items (worksheets x))" for item
  proof -
    obtain name info where item: "item = (name, info)" by (cases item)
    with that have "DAList.lookup (worksheets x) name = Some info" by (simp add: lookup_items)
    with item show ?thesis by (simp add: compare_item_def)
  qed
  then have "concat (map (\<lambda>item. compare_item x item []) (items (worksheets x))) = []"
    by simp
  moreover have "filter (\<lambda>w. \<not> has_worksheet x w) (keys (worksheets x)) = []"
    by (simp add: has_worksheet_def contains_keys)
  ultimately show ?thesis by (simp add: compare_eq)
qed

text \<open>
  C6: the change log of \<open>compare\<close> is, for the worksheets of \<open>self\<close> in the iteration
  order of \<open>self.worksheets\<close>, the events among \<open>NEW_WORKSHEET\<close>, \<open>NEW_PDF\<close>,
  \<open>DELETED_PDF\<close>, \<open>NEW_ODT\<close>, \<open>DELETED_ODT\<close> that are expected of the worksheet, all
  of them and no others, followed by the \<open>DELETED_WORKSHEET\<close> events of the worksheets
  of \<open>older\<close> that \<open>self\<close> lacks, in the iteration order of \<open>older.worksheets\<close>.
\<close>

theorem compare_order:
  "compare self (PLanguageInfo older) =
     concat (map (\<lambda>w. map (Pair w)
                        (filter (expected_event self older w)
                           [NEW_WORKSHEET, NEW_PDF, DELETED_PDF, NEW_ODT, DELETED_ODT]))
               (keys (worksheets self)))
     @ map (\<lambda>w. (w, DELETED_WORKSHEET))
         (filter (\<lambda>w. \<not> has_worksheet self w) (keys (worksheets older)))"
proof -
  let ?five = "[NEW_WORKSHEET, NEW_PDF, DELETED_PDF, NEW_ODT, DELETED_ODT]"
  have one: "compare_item older item [] =
               map (Pair (fst item)) (filter (expected_event self older (fst item)) ?five)"
    if "item \<in> set (items (worksheets self))" for item
  proof -
    obtain w info where item: "item = (w, info)" by (cases item)
    with that have here: "DAList.lookup (worksheets self) w = Some info"
      by (simp add: lookup_items)
    show ?thesis
    proof (cases "DAList.lookup (worksheets older) w")
      case None
      with here item show ?thesis
        by (simp add: compare_item_def add_change_def expected_event_def has_worksheet_def
            contains_def worksheet_has_type_def)
    next
      case (Some old_info)
      with here item show ?thesis
        by (simp add: compare_item_def add_change_def expected_event_def has_worksheet_def
            contains_def worksheet_has_type_def Let_def)
    qed
  qed
  have "map (\<lambda>item. compare_item older item []) (items (worksheets self)) =
        map (\<lambda>item. map (Pair (fst item)) (filter (expected_event self older (fst item)) ?five))
          (items (worksheets self))"
    by (rule map_cong[OF refl]) (rule one)
  also have "\<dots> = map (\<lambda>w. map (Pair w) (filter (expected_event self older w) ?five))
                    (keys (worksheets self))"
    by (simp add: keys_def items_def comp_def)
  finally show ?thesis by (simp add: compare_eq)
qed

section \<open>Lists of worksheets\<close>

lemma missing_pdf_loop_eq:
  "set ks \<subseteq> set (keys (worksheets self)) \<Longrightarrow>
   missing_pdf_loop self ks = Inr (filter (\<lambda>w. \<not> worksheet_has_type self w ''pdf'') ks)"
proof (induction ks)
  case Nil
  show ?case by simp
next
  case (Cons k ks)
  then have "contains k (worksheets self)" by (simp add: contains_keys)
  then obtain info where "DAList.lookup (worksheets self) k = Some info"
    by (auto simp: contains_def)
  with Cons show ?case by (simp add: worksheet_has_type_def)
qed

lemma keys_add_two:
  "k1 \<noteq> k2 \<Longrightarrow> items (worksheets (add_worksheet_info (add_worksheet_info (LanguageInfo_init lc) k1 w1) k2 w2))
     = [(k1, w1), (k2, w2)]"
  by (simp add: add_worksheet_info_def LanguageInfo_init_def items_def
        DAList.update.rep_eq DAList.empty.rep_eq)

text \<open>
  C8: \<open>list_worksheets_with_missing_pdf\<close> returns, without raising, the keys of
  \<open>self.worksheets\<close> in iteration order whose worksheet has no \<open>pdf\<close> entry; for the
  worksheets \<open>X\<close> with a pdf and \<open>Y\<close> without one it returns \<open>["Y"]\<close>.
\<close>

theorem missing_pdf_exactly:
  "list_worksheets_with_missing_pdf self =
     Inr (filter (\<lambda>w. \<not> worksheet_has_type self w ''pdf'') (keys (worksheets self)))
   \<and> (has_file_type wx ''pdf'' \<and> \<not> has_file_type wy ''pdf'' \<longrightarrow>
        list_worksheets_with_missing_pdf
          (add_worksheet_info (add_worksheet_info (LanguageInfo_init lc) ''X'' wx) ''Y'' wy)
        = Inr [''Y''])"
proof -
  have gen: "list_worksheets_with_missing_pdf li =
     Inr (filter (\<lambda>w. \<not> worksheet_has_type li w ''pdf'') (keys (worksheets li)))" for li
    by (simp add: list_worksheets_with_missing_pdf_def missing_pdf_loop_eq)
  let ?li = "add_worksheet_info (add_worksheet_info (LanguageInfo_init lc) ''X'' wx) ''Y'' wy"
  have it: "items (worksheets ?li) = [(''X'', wx), (''Y'', wy)]"
    by (rule keys_add_two) simp
  then have k: "keys (worksheets ?li) = [''X'', ''Y'']"
    by (simp add: keys_def items_def)
  have x: "worksheet_has_type ?li ''X'' ''pdf'' = has_file_type wx ''pdf''"
    using lookup_items[of "''X''" wx "worksheets ?li"] it by (simp add: worksheet_has_type_def)
  have y: "worksheet_has_type ?li ''Y'' ''pdf'' = has_file_type wy ''pdf''"
    using lookup_items[of "''Y''" wy "worksheets ?li"] it by (simp add: worksheet_has_type_def)
  show ?thesis
    unfolding gen k using x y by simp
qed


theorem missing_pdf_exactly_witness:
  "has_file_type example_worksheet_pdf ''pdf'' \<and> \<not> has_file_type example_worksheet ''pdf'' \<and>
   list_worksheets_with_missing_pdf
     (add_worksheet_info
        (add_worksheet_info (LanguageInfo_init ''de'') ''X'' example_worksheet_pdf)
        ''Y'' example_worksheet)
   = Inr [''Y'']"
proof -
  have x: "has_file_type example_worksheet_pdf ''pdf''"
    by (simp add: example_worksheet_pdf_def call_add_file_info_def add_file_info_def
        example_pdf_def has_file_type_def contains_def DAList.lookup_update)
  have y: "\<not> has_file_type example_worksheet ''pdf''"
    by (simp add: example_worksheet_def WorksheetInfo_init_def has_file_type_def contains_def)
  from x y missing_pdf_exactly[of _ example_worksheet_pdf example_worksheet "''de''"]
  show ?thesis by blast
qed

section \<open>The files of a worksheet\<close>

lemma length_AList_update:
  "length (AList.update k v al) = (if k \<in> fst ` set al then length al else Suc (length al))"
  by (induction al) auto

lemma filter_key_one:
  "distinct (map fst xs) \<Longrightarrow> k \<in> fst ` set xs \<Longrightarrow> length (filter (\<lambda>kv. fst kv = k) xs) = 1"
proof (induction xs)
  case Nil
  then show ?case by simp
next
  case (Cons x xs)
  show ?case
  proof (cases "fst x = k")
    case True
    with Cons.prems(1) have "k \<notin> fst ` set xs" by simp
    then have "filter (\<lambda>kv. fst kv = k) xs = []"
      unfolding filter_empty_conv by (metis imageI)
    with True show ?thesis by simp
  next
    case False
    with Cons show ?thesis by auto
  qed
qed

lemma items_update: "items (DAList.update k v d) = AList.update k v (items d)"
  by (simp add: items_def DAList.update.rep_eq)

text \<open>
  C7: two calls of \<open>add_file_info\<close> with \<open>FileInfo\<close> values of the same file type both
  return; afterwards the files mapping is as large as after the first call, it has one
  entry for the type, and that entry is the second value.
\<close>

theorem add_file_info_twice:
  assumes same: "file_type f2 = file_type f1"
  shows "\<exists>w1 w2.
           add_file_info lib self (Some f1) None None = Inr w1
         \<and> add_file_info lib w1 (Some f2) None None = Inr w2
         \<and> length (items (get_file_infos w2)) = length (items (get_file_infos w1))
         \<and> length (filter (\<lambda>kv. fst kv = file_type f1) (items (get_file_infos w2))) = 1
         \<and> get_file_type_info w2 (file_type f1) = Some f2"
proof -
  let ?k = "file_type f1"
  let ?w1 = "self\<lparr>files := DAList.update ?k f1 (files self)\<rparr>"
  let ?w2 = "?w1\<lparr>files := DAList.update ?k f2 (files ?w1)\<rparr>"
  have 1: "add_file_info lib self (Some f1) None None = Inr ?w1"
    by (simp add: add_file_info_def)
  have 2: "add_file_info lib ?w1 (Some f2) None None = Inr ?w2"
    by (simp add: add_file_info_def same)
  have k1: "?k \<in> fst ` set (items (files ?w1))"
    by (simp add: items_update dom_update)
  have 3: "length (items (get_file_infos ?w2)) = length (items (get_file_infos ?w1))"
    using k1 by (simp add: get_file_infos_def items_update length_AList_update)
  have "?k \<in> fst ` set (items (files ?w2))"
    by (simp add: items_update dom_update)
  moreover have "distinct (map fst (items (files ?w2)))"
    by (simp add: items_def)
  ultimately have 4: "length (filter (\<lambda>kv. fst kv = ?k) (items (get_file_infos ?w2))) = 1"
    unfolding get_file_infos_def by (intro filter_key_one)
  have 5: "get_file_type_info ?w2 ?k = Some f2"
    by (simp add: get_file_type_info_def contains_def)
  from 1 2 3 4 5 show ?thesis by blast
qed

theorem add_file_info_twice_witness:
  "file_type example_pdf_newer = file_type example_pdf \<and>
   (\<exists>w1 w2.
      add_file_info example_lib example_worksheet (Some example_pdf) None None = Inr w1
    \<and> add_file_info example_lib w1 (Some example_pdf_newer) None None = Inr w2
    \<and> length (items (get_file_infos w2)) = length (items (get_file_infos w1))
    \<and> length (filter (\<lambda>kv. fst kv = file_type example_pdf) (items (get_file_infos w2))) = 1
    \<and> get_file_type_info w2 (file_type example_pdf) = Some example_pdf_newer)"
proof -
  have same: "file_type example_pdf_newer = file_type example_pdf"
    by (simp add: example_pdf_def example_pdf_newer_def)
  from same add_file_info_twice[OF same, of example_lib example_worksheet]
  show ?thesis by blast
qed

lemma set_update_subset: "x \<in> set (AList.update k v al) \<Longrightarrow> x = (k, v) \<or> x \<in> set al"
  by (induction al) (auto split: if_splits)

lemma keyed_update:
  "keyed_by_file_type w \<Longrightarrow> file_type fi = k \<Longrightarrow>
   keyed_by_file_type (w\<lparr>files := DAList.update k fi (files w)\<rparr>)"
  by (auto simp: keyed_by_file_type_def list_all_iff items_update dest!: set_update_subset)

lemma keyed_add_file_info:
  "keyed_by_file_type w \<Longrightarrow> add_file_info lib w file_info ft from_pywikibot = Inr w' \<Longrightarrow>
   keyed_by_file_type w'"
  by (auto simp: add_file_info_def FileInfo_init_def keyed_update split: option.splits)

lemma keyed_call: "keyed_by_file_type w \<Longrightarrow> keyed_by_file_type (call_add_file_info lib w args)"
  by (cases args) (auto simp: call_add_file_info_def split: sum.splits dest: keyed_add_file_info)

lemma keyed_after_calls: "keyed_by_file_type w \<Longrightarrow> keyed_by_file_type (after_calls lib w calls)"
  unfolding after_calls_def by (induction calls arbitrary: w) (simp_all add: keyed_call)

lemma keyed_init: "keyed_by_file_type (WorksheetInfo_init p lc t pr)"
  by (simp add: keyed_by_file_type_def WorksheetInfo_init_def items_def DAList.empty.rep_eq)

lemma keyed_lookup:
  "keyed_by_file_type w \<Longrightarrow> get_file_type_info w k = Some fi \<Longrightarrow> file_type fi = k"
  by (auto simp: keyed_by_file_type_def get_file_type_info_def list_all_iff items_def
      DAList.lookup.rep_eq split: if_splits dest!: map_of_SomeD)

text \<open>
  C10: after any sequence of calls of \<open>add_file_info\<close> on a new \<open>WorksheetInfo\<close>, in
  either calling mode and whether or not a call fails its assertion, every
  \<open>FileInfo\<close> that \<open>get_file_type_info\<close> returns for a key has that key as its
  \<open>file_type\<close>.
\<close>

theorem files_keyed_by_file_type:
  "get_file_type_info (after_calls lib (WorksheetInfo_init p lc t pr) calls) k = Some fi \<Longrightarrow>
   file_type fi = k"
  using keyed_lookup[OF keyed_after_calls[OF keyed_init]] .

theorem files_keyed_by_file_type_witness:
  "get_file_type_info
     (after_calls example_lib example_worksheet
        [(Some example_pdf, None, None), (None, Some ''odt'', Some example_odt_upload),
         (None, None, None)])
     ''odt''
   = Some \<lparr>file_type = ''odt'', url = ''https://www.4training.net/Prayer.odt'',
           timestamp = Timestamp example_timestamp\<rparr>
   \<and> file_type \<lparr>file_type = ''odt'', url = ''https://www.4training.net/Prayer.odt'',
                 timestamp = Timestamp example_timestamp\<rparr> = ''odt''"
proof -
  have h: "get_file_type_info
     (after_calls example_lib (WorksheetInfo_init ''Prayer'' ''de'' ''Gebet'' example_progress)
        [(Some example_pdf, None, None), (None, Some ''odt'', Some example_odt_upload),
         (None, None, None)])
     ''odt''
   = Some \<lparr>file_type = ''odt'', url = ''https://www.4training.net/Prayer.odt'',
           timestamp = Timestamp example_timestamp\<rparr>"
    by (simp add: after_calls_def call_add_file_info_def add_file_info_def FileInfo_init_def
        get_file_type_info_def contains_def DAList.lookup_update example_pdf_def
        example_odt_upload_def example_lib_def)
  from h files_keyed_by_file_type[OF h] show ?thesis
    by (simp add: example_worksheet_def)
qed

section \<open>The timestamp of a FileInfo\<close>

lemma replace_Z_append: "replace_Z (s @ t) = replace_Z s @ replace_Z t"
  by (induction s) simp_all

lemma FileInfo_init_datetime:
  "FileInfo_init lib ft u (PDatetime tp) = Inr \<lparr>file_type = ft, url = u, timestamp = tp\<rparr>"
  by (simp add: FileInfo_init_def)

lemma FileInfo_init_trailing_Z:
  "FileInfo_init lib ft u (PStr (s @ ''Z'')) = FileInfo_init lib ft u (PStr (s @ ''+00:00''))"
  by (simp add: FileInfo_init_def replace_Z_append)

lemma FileInfo_init_fallback:
  "fromisoformat lib (replace_Z s) = None \<Longrightarrow>
   FileInfo_init lib ft u (PStr s) =
     Inr \<lparr>file_type = ft, url = u, timestamp = Datetime fallback_timestamp\<rparr>"
  by (simp add: FileInfo_init_def)

lemma FileInfo_init_str_returns: "\<exists>fi. FileInfo_init lib ft u (PStr s) = Inr fi"
  by (simp add: FileInfo_init_def split: option.splits)


text \<open>
  C3: the constructor of \<open>FileInfo\<close> stores a time point as it is, reads a trailing
  \<open>Z\<close> as \<open>+00:00\<close> and falls back to 1970-01-01 when the string does not parse (the
  four lemmas above). A timestamp that is neither a time point nor a string raises
  \<open>AttributeError\<close>: here \<open>None\<close>, given to the constructor, to \<open>json_decode\<close>, and
  read from a document whose timestamp is \<open>null\<close>.
\<close>

theorem FileInfo_init_None_raises:
  "FileInfo_init lib ft u PNone = Inl AttributeError
   \<and> json_decode lib [(''file_type'', PStr ft), (''url'', PStr u), (''timestamp'', PNone)]
       = Inl AttributeError
   \<and> loads_tree lib (JObject [(''file_type'', JString ft), (''url'', JString u),
                              (''timestamp'', JNull)]) = Inl AttributeError"
  by (simp add: FileInfo_init_def json_decode_def has_key_def str_arg_def dict_of_pairs_def)

section \<open>Decoding by keys\<close>

lemma is_FileInfo_PFileInfo: "is_FileInfo (PFileInfo f)"
  by (simp add: is_FileInfo_def)

lemma is_WorksheetInfo_PWorksheetInfo: "is_WorksheetInfo (PWorksheetInfo w)"
  by (simp add: is_WorksheetInfo_def)

lemma decode_files_ok:
  "decode_files lib w (map PFileInfo fis) =
     Inr (after_calls lib w (map (\<lambda>fi. (Some fi, None, None)) fis))"
  by (induction fis arbitrary: w)
    (simp_all add: after_calls_def call_add_file_info_def add_file_info_def)

lemma decode_files_bad:
  "\<not> list_all is_FileInfo es \<Longrightarrow> decode_files lib w es = Inl AssertionError"
proof (induction es arbitrary: w)
  case Nil
  then show ?case by simp
next
  case (Cons e es)
  show ?case
  proof (cases e)
    case (PFileInfo f)
    with Cons.prems have "\<not> list_all is_FileInfo es"
      by (simp add: is_FileInfo_PFileInfo)
    then show ?thesis using Cons.IH PFileInfo by (simp add: add_file_info_def)
  qed simp_all
qed

lemma decode_worksheets_ok:
  "decode_worksheets li (map PWorksheetInfo wis) =
     Inr (fold (\<lambda>w li. add_worksheet_info li (page w) w) wis li)"
  by (induction wis arbitrary: li) simp_all

lemma decode_worksheets_bad:
  "\<not> list_all is_WorksheetInfo es \<Longrightarrow> decode_worksheets li es = Inl AssertionError"
proof (induction es arbitrary: li)
  case Nil
  then show ?case by simp
next
  case (Cons e es)
  show ?case
  proof (cases e)
    case (PWorksheetInfo w)
    with Cons.prems have "\<not> list_all is_WorksheetInfo es"
      by (simp add: is_WorksheetInfo_PWorksheetInfo)
    then show ?thesis using Cons.IH PWorksheetInfo by simp
  qed simp_all
qed

lemma str_arg_PStr: "str_arg (Some (PStr s)) = Some s"
  by (simp add: str_arg_def)

lemma outside_model_Inl: "outside_model (Inl e) = Inl e"
  by (simp add: outside_model_def)

lemma json_decode_FileInfo_assert:
  "has_key ''file_type'' data \<Longrightarrow> \<not> (has_key ''url'' data \<and> has_key ''timestamp'' data) \<Longrightarrow>
   json_decode lib data = Inl AssertionError"
  by (auto simp: json_decode_def has_key_def split: option.splits)

lemma json_decode_FileInfo:
  "map_of data ''file_type'' = Some (PStr ft) \<Longrightarrow> map_of data ''url'' = Some (PStr u) \<Longrightarrow>
   map_of data ''timestamp'' = Some ts \<Longrightarrow>
   json_decode lib data = map_sum id PFileInfo (FileInfo_init lib ft u ts)"
  by (simp add: json_decode_def has_key_def str_arg_PStr)

lemma json_decode_progress:
  "\<not> has_key ''file_type'' data \<Longrightarrow> has_key ''translated'' data \<Longrightarrow>
   json_decode lib data = map_sum id PTranslationProgress (TranslationProgress_init data)"
  by (simp add: json_decode_def)

lemma json_decode_worksheet_assert:
  "\<not> has_key ''file_type'' data \<Longrightarrow> \<not> has_key ''translated'' data \<Longrightarrow> has_key ''page'' data \<Longrightarrow>
   \<not> (has_key ''language_code'' data \<and> has_key ''title'' data \<and> has_key ''progress'' data) \<Longrightarrow>
   json_decode lib data = Inl AssertionError"
  by (simp add: json_decode_def)

lemma json_decode_worksheet_progress:
  assumes "\<not> has_key ''file_type'' data" "\<not> has_key ''translated'' data" "has_key ''page'' data"
    and "\<And>pr. map_of data ''progress'' \<noteq> Some (PTranslationProgress pr)"
  shows "json_decode lib data = Inl AssertionError"
proof (cases "has_key ''language_code'' data \<and> has_key ''title'' data \<and> has_key ''progress'' data")
  case False
  with assms show ?thesis by (simp add: json_decode_def)
next
  case True
  then obtain v where v: "map_of data ''progress'' = Some v" by (auto simp: has_key_def)
  show ?thesis
  proof (cases v)
    case (PTranslationProgress pr)
    with v assms(4) show ?thesis by blast
  qed (use v True assms(1-3) in \<open>simp_all add: json_decode_def\<close>)
qed

lemma all_FileInfo: "list_all is_FileInfo es \<Longrightarrow> \<exists>fis. es = map PFileInfo fis"
proof (induction es)
  case Nil
  show ?case by simp
next
  case (Cons e es)
  then obtain fis where "es = map PFileInfo fis" by auto
  moreover from Cons.prems obtain f where "e = PFileInfo f"
    by (cases e) (simp_all add: is_FileInfo_def)
  ultimately have "e # es = map PFileInfo (f # fis)" by simp
  then show ?case by (rule exI[of _ "f # fis"])
qed

lemma all_WorksheetInfo: "list_all is_WorksheetInfo es \<Longrightarrow> \<exists>wis. es = map PWorksheetInfo wis"
proof (induction es)
  case Nil
  show ?case by simp
next
  case (Cons e es)
  then obtain wis where "es = map PWorksheetInfo wis" by auto
  moreover from Cons.prems obtain w where "e = PWorksheetInfo w"
    by (cases e) (simp_all add: is_WorksheetInfo_def)
  ultimately have "e # es = map PWorksheetInfo (w # wis)" by simp
  then show ?case by (rule exI[of _ "w # wis"])
qed

text \<open>
  The exception of the \<open>files\<close> part does not depend on the worksheet it runs on, nor does
  the exception of the \<open>worksheets\<close> part depend on the language.
\<close>

lemma decode_worksheet_files_Inl:
  "decode_worksheet_files lib data w = Inl e \<longleftrightarrow>
     (\<exists>fs. map_of data ''files'' = Some fs \<and>
        (py_iter fs = Inl e \<or>
         (\<exists>es. py_iter fs = Inr es \<and> \<not> list_all is_FileInfo es \<and> e = AssertionError)))"
proof (cases "map_of data ''files''")
  case None
  then show ?thesis by (simp add: decode_worksheet_files_def)
next
  case (Some fs)
  show ?thesis
  proof (cases "py_iter fs")
    case (Inl e')
    with Some show ?thesis by (simp add: decode_worksheet_files_def)
  next
    case (Inr es)
    show ?thesis
    proof (cases "list_all is_FileInfo es")
      case True
      then obtain fis where "es = map PFileInfo fis" using all_FileInfo by blast
      with Some Inr True show ?thesis
        by (simp add: decode_worksheet_files_def decode_files_ok)
    next
      case False
      with Some Inr show ?thesis
        by (auto simp: decode_worksheet_files_def decode_files_bad)
    qed
  qed
qed

lemma decode_language_worksheets_Inl:
  "decode_language_worksheets ws li = Inl e \<longleftrightarrow>
     (py_iter ws = Inl e \<or>
      (\<exists>es. py_iter ws = Inr es \<and> \<not> list_all is_WorksheetInfo es \<and> e = AssertionError))"
proof (cases "py_iter ws")
  case (Inl e')
  then show ?thesis by (simp add: decode_language_worksheets_def)
next
  case (Inr es)
  show ?thesis
  proof (cases "list_all is_WorksheetInfo es")
    case True
    then obtain wis where "es = map PWorksheetInfo wis" using all_WorksheetInfo by blast
    with Inr True show ?thesis
      by (simp add: decode_language_worksheets_def decode_worksheets_ok)
  next
    case False
    with Inr show ?thesis
      by (auto simp: decode_language_worksheets_def decode_worksheets_bad)
  qed
qed

lemma json_decode_worksheet_raises:
  assumes "\<not> has_key ''file_type'' data" "\<not> has_key ''translated'' data" "has_key ''page'' data"
    and "has_key ''language_code'' data" "has_key ''title'' data"
    and "map_of data ''progress'' = Some (PTranslationProgress pr)"
    and "decode_worksheet_files lib data w = Inl e"
  shows "json_decode lib data = Inl e"
proof -
  have raises: "decode_worksheet_files lib data w' = Inl e" for w'
    using assms(7) by (simp add: decode_worksheet_files_Inl)
  from assms(1-6) show ?thesis
    by (simp add: json_decode_def has_key_def raises outside_model_Inl
        split: option.splits prod.splits)
qed

lemma json_decode_worksheet:
  assumes "\<not> has_key ''file_type'' data" "\<not> has_key ''translated'' data"
    and "map_of data ''page'' = Some (PStr p)"
    and "map_of data ''language_code'' = Some (PStr lc)"
    and "map_of data ''title'' = Some (PStr t)"
    and "map_of data ''progress'' = Some (PTranslationProgress pr)"
  shows "json_decode lib data =
     map_sum id PWorksheetInfo (decode_worksheet_files lib data (WorksheetInfo_init p lc t pr))"
  using assms by (simp add: json_decode_def has_key_def str_arg_PStr)

lemma json_decode_language_assert:
  "\<not> has_key ''file_type'' data \<Longrightarrow> \<not> has_key ''translated'' data \<Longrightarrow> \<not> has_key ''page'' data \<Longrightarrow>
   has_key ''worksheets'' data \<Longrightarrow> \<not> has_key ''language_code'' data \<Longrightarrow>
   json_decode lib data = Inl AssertionError"
  by (simp add: json_decode_def has_key_def)

lemma json_decode_language_raises:
  assumes "\<not> has_key ''file_type'' data" "\<not> has_key ''translated'' data" "\<not> has_key ''page'' data"
    and "has_key ''language_code'' data"
    and "map_of data ''worksheets'' = Some ws"
    and "decode_language_worksheets ws li = Inl e"
  shows "json_decode lib data = Inl e"
proof -
  have raises: "decode_language_worksheets ws li' = Inl e" for li'
    using assms(6) by (simp add: decode_language_worksheets_Inl)
  from assms(1-5) show ?thesis
    by (auto simp: json_decode_def has_key_def raises outside_model_Inl
        split: option.splits)
qed

lemma json_decode_language:
  assumes "\<not> has_key ''file_type'' data" "\<not> has_key ''translated'' data" "\<not> has_key ''page'' data"
    and "map_of data ''language_code'' = Some (PStr lc)"
    and "map_of data ''worksheets'' = Some ws"
  shows "json_decode lib data =
     map_sum id PLanguageInfo (decode_language_worksheets ws (LanguageInfo_init lc))"
  using assms by (simp add: json_decode_def has_key_def str_arg_PStr)

lemma json_decode_unchanged:
  "\<not> has_key ''file_type'' data \<Longrightarrow> \<not> has_key ''translated'' data \<Longrightarrow> \<not> has_key ''page'' data \<Longrightarrow>
   \<not> has_key ''worksheets'' data \<Longrightarrow> json_decode lib data = Inr (PDict data)"
  by (simp add: json_decode_def)

text \<open>
  What \<open>json_decode\<close> does by the keys of the mapping, in the order \<open>file_type\<close>,
  \<open>translated\<close>, \<open>page\<close>, \<open>worksheets\<close>. The assertions and the exceptions of the
  loops hold for every mapping; the objects built are stated for fields that hold strings.
\<close>

lemma json_decode_by_keys:
  "(has_key ''file_type'' data \<and> \<not> (has_key ''url'' data \<and> has_key ''timestamp'' data) \<longrightarrow>
      json_decode lib data = Inl AssertionError)
   \<and> (map_of data ''file_type'' = Some (PStr ft) \<and> map_of data ''url'' = Some (PStr u)
        \<and> map_of data ''timestamp'' = Some ts \<longrightarrow>
      json_decode lib data = map_sum id PFileInfo (FileInfo_init lib ft u ts))
   \<and> (\<not> has_key ''file_type'' data \<and> has_key ''translated'' data \<longrightarrow>
      json_decode lib data = map_sum id PTranslationProgress (TranslationProgress_init data))
   \<and> (\<not> has_key ''file_type'' data \<and> \<not> has_key ''translated'' data \<and> has_key ''page'' data \<longrightarrow>
        (\<not> (has_key ''language_code'' data \<and> has_key ''title'' data \<and> has_key ''progress'' data) \<longrightarrow>
           json_decode lib data = Inl AssertionError)
      \<and> ((\<forall>pr. map_of data ''progress'' \<noteq> Some (PTranslationProgress pr)) \<longrightarrow>
           json_decode lib data = Inl AssertionError)
      \<and> (has_key ''language_code'' data \<and> has_key ''title'' data
          \<and> map_of data ''progress'' = Some (PTranslationProgress pr)
          \<and> map_of data ''files'' = Some fs \<longrightarrow>
            (py_iter fs = Inl e \<longrightarrow> json_decode lib data = Inl e)
          \<and> (py_iter fs = Inr es \<and> \<not> list_all is_FileInfo es \<longrightarrow>
               json_decode lib data = Inl AssertionError))
      \<and> (map_of data ''page'' = Some (PStr p) \<and> map_of data ''language_code'' = Some (PStr lc)
          \<and> map_of data ''title'' = Some (PStr t)
          \<and> map_of data ''progress'' = Some (PTranslationProgress pr) \<longrightarrow>
            (map_of data ''files'' = None \<longrightarrow>
               json_decode lib data = Inr (PWorksheetInfo (WorksheetInfo_init p lc t pr)))
          \<and> (map_of data ''files'' = Some fs \<and> py_iter fs = Inr (map PFileInfo fis) \<longrightarrow>
               json_decode lib data =
                 Inr (PWorksheetInfo
                        (after_calls lib (WorksheetInfo_init p lc t pr)
                           (map (\<lambda>fi. (Some fi, None, None)) fis))))))
   \<and> (\<not> has_key ''file_type'' data \<and> \<not> has_key ''translated'' data \<and> \<not> has_key ''page'' data
        \<and> has_key ''worksheets'' data \<longrightarrow>
        (\<not> has_key ''language_code'' data \<longrightarrow> json_decode lib data = Inl AssertionError)
      \<and> (has_key ''language_code'' data \<and> map_of data ''worksheets'' = Some ws \<longrightarrow>
            (py_iter ws = Inl e \<longrightarrow> json_decode lib data = Inl e)
          \<and> (py_iter ws = Inr ws_es \<and> \<not> list_all is_WorksheetInfo ws_es \<longrightarrow>
               json_decode lib data = Inl AssertionError))
      \<and> (map_of data ''language_code'' = Some (PStr c) \<and> map_of data ''worksheets'' = Some ws
          \<and> py_iter ws = Inr (map PWorksheetInfo wis) \<longrightarrow>
            json_decode lib data =
              Inr (PLanguageInfo
                     (fold (\<lambda>w li. add_worksheet_info li (page w) w) wis
                        (LanguageInfo_init c)))))
   \<and> (\<not> has_key ''file_type'' data \<and> \<not> has_key ''translated'' data \<and> \<not> has_key ''page'' data
        \<and> \<not> has_key ''worksheets'' data \<longrightarrow>
      json_decode lib data = Inr (PDict data))"
proof (intro conjI impI, goal_cases)
  case 1
  then show ?case by (simp add: json_decode_FileInfo_assert)
next
  case 2
  then show ?case by (simp add: json_decode_FileInfo)
next
  case 3
  then show ?case by (simp add: json_decode_progress)
next
  case 4
  then show ?case by (simp add: json_decode_worksheet_assert)
next
  case 5
  then show ?case by (simp add: json_decode_worksheet_progress)
next
  case 6
  then have "decode_worksheet_files lib data (WorksheetInfo_init [] [] [] pr) = Inl e"
    by (simp add: decode_worksheet_files_Inl)
  with 6 show ?case by (intro json_decode_worksheet_raises) simp_all
next
  case 7
  then have "decode_worksheet_files lib data (WorksheetInfo_init [] [] [] pr) = Inl AssertionError"
    by (simp add: decode_worksheet_files_Inl)
  with 7 show ?case by (intro json_decode_worksheet_raises) simp_all
next
  case 8
  then show ?case by (simp add: json_decode_worksheet decode_worksheet_files_def)
next
  case 9
  then show ?case
    by (simp add: json_decode_worksheet decode_worksheet_files_def decode_files_ok)
next
  case 10
  then show ?case by (simp add: json_decode_language_assert)
next
  case 11
  then have "decode_language_worksheets ws (LanguageInfo_init []) = Inl e"
    by (simp add: decode_language_worksheets_Inl)
  with 11 show ?case by (intro json_decode_language_raises) simp_all
next
  case 12
  then have "decode_language_worksheets ws (LanguageInfo_init []) = Inl AssertionError"
    by (simp add: decode_language_worksheets_Inl)
  with 12 show ?case by (intro json_decode_language_raises) simp_all
next
  case 13
  then show ?case
    by (simp add: json_decode_language decode_language_worksheets_def decode_worksheets_ok)
next
  case 14
  then show ?case by (simp add: json_decode_unchanged)
qed

text \<open>
  C5: \<open>json_decode\<close> follows the priority of the keys and asserts the presence of the
  required keys and the class of \<open>progress\<close> and of every entry (the lemma above). It
  does not check that \<open>files\<close> and \<open>worksheets\<close> can be iterated: for a value that is
  not iterable the \<open>for\<close> statement raises \<open>TypeError\<close>, not the
  \<open>AssertionError\<close> of a malformed mapping. Here \<open>files\<close> is a number and
  \<open>worksheets\<close> is \<open>None\<close>, given to \<open>json_decode\<close> and read from a document.
\<close>

theorem json_decode_not_iterable_raises:
  "json_decode lib
     [(''page'', PStr p), (''language_code'', PStr lc), (''title'', PStr t),
      (''progress'', PTranslationProgress pr), (''files'', PInt 1)] = Inl TypeError
   \<and> json_decode lib [(''language_code'', PStr lc), (''worksheets'', PNone)] = Inl TypeError
   \<and> loads_tree lib
       (JObject [(''page'', JString p), (''language_code'', JString lc), (''title'', JString t),
                 (''progress'', JObject [(''translated'', JInt a), (''fuzzy'', JInt b),
                                          (''total'', JInt c)]),
                 (''files'', JInt 1)]) = Inl TypeError
   \<and> loads_tree lib (JObject [(''language_code'', JString lc), (''worksheets'', JNull)])
       = Inl TypeError"
  by (simp add: json_decode_def has_key_def str_arg_def decode_worksheet_files_def
      decode_language_worksheets_def py_iter_def dict_of_pairs_def TranslationProgress_init_def)

section \<open>Encoding and decoding again\<close>

lemma collect_map_Inr:
  "(\<And>x. x \<in> set xs \<Longrightarrow> f x = Inr (g x)) \<Longrightarrow> collect (map f xs) = Inr (map g xs)"
  by (induction xs) simp_all

lemma dumps_TranslationProgress:
  "dumps_tree lib (PTranslationProgress p) = Inr (json_TranslationProgress p)"
  by (simp add: WorksheetInfoEncoder_default_def json_TranslationProgress_def)

lemma dumps_FileInfo: "dumps_tree lib (PFileInfo f) = Inr (json_FileInfo lib f)"
  by (simp add: WorksheetInfoEncoder_default_def json_FileInfo_def)

lemma items_empty_iff: "items d = [] \<longleftrightarrow> values_of d = []"
  by (simp add: items_def values_of_def)

lemma dumps_WorksheetInfo: "dumps_tree lib (PWorksheetInfo w) = Inr (json_WorksheetInfo lib w)"
proof -
  have fs: "collect (map (dumps_tree lib \<circ> PFileInfo) fs) = Inr (map (json_FileInfo lib) fs)"
    for fs
    by (rule collect_map_Inr) (simp only: o_apply dumps_FileInfo)
  show ?thesis
    by (simp add: WorksheetInfoEncoder_default_def json_WorksheetInfo_def Let_def
        get_file_infos_def items_empty_iff json_TranslationProgress_def fs)
qed

lemma dumps_LanguageInfo: "dumps_tree lib (PLanguageInfo x) = Inr (json_LanguageInfo lib x)"
proof -
  have ws: "collect (map (dumps_tree lib \<circ> PWorksheetInfo) ws) =
            Inr (map (json_WorksheetInfo lib) ws)" for ws
    by (rule collect_map_Inr) (simp only: o_apply dumps_WorksheetInfo)
  show ?thesis
    by (simp add: WorksheetInfoEncoder_default_def json_LanguageInfo_def ws)
qed

lemma loads_TranslationProgress:
  "loads_tree lib (json_TranslationProgress p) = Inr (PTranslationProgress p)"
  by (simp add: json_TranslationProgress_def dict_of_pairs_def json_decode_def has_key_def
      TranslationProgress_init_def)

lemma replace_Z_id: "CHR ''Z'' \<notin> set s \<Longrightarrow> replace_Z s = s"
  by (induction s) auto

lemma loads_FileInfo:
  assumes contract: "\<forall>t. fromisoformat lib (isoformat lib t) = Some t"
    and no_Z: "\<forall>t. CHR ''Z'' \<notin> set (isoformat lib t)"
    and plain: "is_datetime_itself (timestamp f)"
  shows "loads_tree lib (json_FileInfo lib f) = Inr (PFileInfo f)"
proof -
  from plain obtain t where t: "timestamp f = Datetime t"
    by (cases "timestamp f") (simp_all add: is_datetime_itself_def)
  have "fromisoformat lib (replace_Z (isoformat lib t)) = Some t"
    using contract no_Z by (simp add: replace_Z_id)
  moreover have "\<lparr>file_type = file_type f, url = url f, timestamp = Datetime t\<rparr> = f"
    using t by simp
  ultimately show ?thesis
    using t
    by (simp add: json_FileInfo_def isoformat_of_def dict_of_pairs_def json_decode_def
        has_key_def str_arg_def FileInfo_init_def)
qed

lemma update_new: "k \<notin> fst ` set ys \<Longrightarrow> AList.update k v ys = ys @ [(k, v)]"
  by (induction ys) auto

lemma fold_update_values:
  "distinct (map fst (ys @ xs)) \<Longrightarrow> (\<And>kv. kv \<in> set xs \<Longrightarrow> key (snd kv) = fst kv) \<Longrightarrow>
   fold (\<lambda>v d. AList.update (key v) v d) (map snd xs) ys = ys @ xs"
proof (induction xs arbitrary: ys)
  case Nil
  show ?case by simp
next
  case (Cons x xs)
  obtain k v where x: "x = (k, v)" by (cases x)
  from Cons.prems(2)[of x] x have kv: "key v = k" by simp
  from Cons.prems(1) x have new: "k \<notin> fst ` set ys" by auto
  have "fold (\<lambda>v d. AList.update (key v) v d) (map snd xs) (ys @ [x]) = (ys @ [x]) @ xs"
    using Cons.prems by (intro Cons.IH) auto
  then show ?case using x kv new by (simp add: update_new)
qed

lemma impl_of_fold_update:
  "DAList.impl_of (fold (\<lambda>v d. DAList.update (key v) v d) vs d) =
   fold (\<lambda>v d. AList.update (key v) v d) vs (DAList.impl_of d)"
  by (induction vs arbitrary: d) (simp_all add: DAList.update.rep_eq)

lemma rebuild_dict:
  assumes "list_all (\<lambda>kv. key (snd kv) = fst kv) (items d)"
  shows "fold (\<lambda>v d. DAList.update (key v) v d) (values_of d) DAList.empty = d"
proof -
  have "fold (\<lambda>v d. AList.update (key v) v d) (map snd (items d)) [] = [] @ items d"
    using assms by (intro fold_update_values) (auto simp: items_def list_all_iff)
  then show ?thesis
    by (simp add: alist_eq_iff impl_of_fold_update values_of_def items_def DAList.empty.rep_eq)
qed

lemma after_calls_files:
  "after_calls lib w (map (\<lambda>fi. (Some fi, None, None)) fs) =
   w\<lparr>files := fold (\<lambda>fi d. DAList.update (file_type fi) fi d) fs (files w)\<rparr>"
  by (induction fs arbitrary: w)
    (simp_all add: after_calls_def call_add_file_info_def add_file_info_def)

lemma collect_loads_FileInfos:
  assumes "\<forall>t. fromisoformat lib (isoformat lib t) = Some t"
    and "\<forall>t. CHR ''Z'' \<notin> set (isoformat lib t)"
    and "list_all (\<lambda>f. is_datetime_itself (timestamp f)) fs"
  shows "collect (map (loads_tree lib \<circ> json_FileInfo lib) fs) = Inr (map PFileInfo fs)"
  using assms by (intro collect_map_Inr) (simp add: loads_FileInfo list_all_iff)

lemma loads_WorksheetInfo:
  assumes contract: "\<forall>t. fromisoformat lib (isoformat lib t) = Some t"
    and no_Z: "\<forall>t. CHR ''Z'' \<notin> set (isoformat lib t)"
    and keyed: "keyed_by_file_type w"
    and plain: "list_all (\<lambda>f. is_datetime_itself (timestamp f)) (values_of (files w))"
  shows "loads_tree lib (json_WorksheetInfo lib w) = Inr (PWorksheetInfo w)"
proof (cases "values_of (files w) = []")
  case True
  then have "files w = DAList.empty"
    by (simp add: alist_eq_iff values_of_def DAList.empty.rep_eq)
  then have "WorksheetInfo_init (page w) (language_code w) (title w) (progress w) = w"
    by (simp add: WorksheetInfo_init_def)
  with True show ?thesis
    by (simp add: json_WorksheetInfo_def loads_TranslationProgress dict_of_pairs_def
        json_decode_def has_key_def str_arg_def decode_worksheet_files_def)
next
  case False
  let ?w0 = "WorksheetInfo_init (page w) (language_code w) (title w) (progress w)"
  have "after_calls lib ?w0 (map (\<lambda>fi. (Some fi, None, None)) (values_of (files w))) =
        ?w0\<lparr>files := files w\<rparr>"
    using rebuild_dict[of file_type "files w"] keyed
    by (simp add: after_calls_files keyed_by_file_type_def WorksheetInfo_init_def)
  also have "\<dots> = w" by (simp add: WorksheetInfo_init_def)
  finally have rebuilt:
    "after_calls lib ?w0 (map (\<lambda>fi. (Some fi, None, None)) (values_of (files w))) = w" .
  show ?thesis
    using False
    by (simp add: json_WorksheetInfo_def loads_TranslationProgress dict_of_pairs_def
        json_decode_def has_key_def str_arg_def decode_worksheet_files_def
        collect_loads_FileInfos[OF contract no_Z plain] py_iter_def decode_files_ok rebuilt)
qed

lemma collect_loads_WorksheetInfos:
  assumes "\<forall>t. fromisoformat lib (isoformat lib t) = Some t"
    and "\<forall>t. CHR ''Z'' \<notin> set (isoformat lib t)"
    and "list_all keyed_by_file_type ws"
    and "list_all (\<lambda>w. list_all (\<lambda>f. is_datetime_itself (timestamp f)) (values_of (files w))) ws"
  shows "collect (map (loads_tree lib \<circ> json_WorksheetInfo lib) ws) = Inr (map PWorksheetInfo ws)"
  using assms by (intro collect_map_Inr) (simp add: loads_WorksheetInfo list_all_iff)

lemma decoded_worksheets:
  "fold (\<lambda>w li. add_worksheet_info li (page w) w) ws li =
   li\<lparr>worksheets := fold (\<lambda>w d. DAList.update (page w) w d) ws (worksheets li)\<rparr>"
  by (induction ws arbitrary: li) (simp_all add: add_worksheet_info_def)

lemma loads_LanguageInfo:
  assumes contract: "\<forall>t. fromisoformat lib (isoformat lib t) = Some t"
    and no_Z: "\<forall>t. CHR ''Z'' \<notin> set (isoformat lib t)"
    and pages: "keyed_by_page x"
    and keyed: "list_all keyed_by_file_type (values_of (worksheets x))"
    and plain: "plain_timestamps x"
  shows "loads_tree lib (json_LanguageInfo lib x) = Inr (PLanguageInfo x)"
proof -
  let ?ws = "values_of (worksheets x)"
  have "fold (\<lambda>w li. add_worksheet_info li (page w) w) ?ws (LanguageInfo_init (lang_code x)) =
        (LanguageInfo_init (lang_code x))\<lparr>worksheets := worksheets x\<rparr>"
    using rebuild_dict[of page "worksheets x"] pages
    by (simp add: decoded_worksheets keyed_by_page_def LanguageInfo_init_def)
  also have "\<dots> = x" by (simp add: LanguageInfo_init_def)
  finally have rebuilt:
    "fold (\<lambda>w li. add_worksheet_info li (page w) w) ?ws (LanguageInfo_init (lang_code x)) = x" .
  have members: "collect (map (loads_tree lib \<circ> json_WorksheetInfo lib) ?ws) =
                 Inr (map PWorksheetInfo ?ws)"
    using contract no_Z keyed plain
    by (intro collect_loads_WorksheetInfos) (simp_all add: plain_timestamps_def)
  show ?thesis
    by (simp add: json_LanguageInfo_def dict_of_pairs_def json_decode_def has_key_def
        str_arg_def decode_language_worksheets_def members py_iter_def decode_worksheets_ok
        rebuilt)
qed

subsection \<open>The library instance on all time points\<close>

lemma takeWhile_strokes:
  "takeWhile (\<lambda>x. x = CHR ''1'') (replicate n (CHR ''1'') @ CHR '';'' # r) = replicate n (CHR ''1'')"
  by (induction n) simp_all

lemma dropWhile_strokes:
  "dropWhile (\<lambda>x. x = CHR ''1'') (replicate n (CHR ''1'') @ CHR '';'' # r) = CHR '';'' # r"
  by (induction n) simp_all

lemma untally_tally: "untally (tally i @ r) = Some (i, r)"
  by (simp add: untally_def tally_def takeWhile_strokes dropWhile_strokes)

lemma untally_offset_none: "untally_offset ''n'' = Some None"
  by (simp add: untally_offset_def)

lemma untally_offset_some: "untally_offset (CHR ''s'' # tally off) = Some (Some off)"
  using untally_tally[of off "[]"] by (simp add: untally_offset_def)

lemma tally_contract: "tally_fromisoformat (tally_isoformat t) = Some t"
  by (cases "utcoffset t")
    (simp_all add: tally_fromisoformat_def tally_isoformat_def untally_tally
      untally_offset_none untally_offset_some)

lemma tally_no_Z: "CHR ''Z'' \<notin> set (tally_isoformat t)"
  by (simp add: tally_isoformat_def tally_def split: option.splits)

subsection \<open>The round trip\<close>

text \<open>
  C2, amended: let \<open>datetime.fromisoformat\<close> read back every string that
  \<open>datetime.isoformat\<close> writes, and let \<open>datetime.isoformat\<close> write no \<open>Z\<close>. Then for
  every \<open>LanguageInfo\<close> whose worksheets are each stored under their own page name,
  whose files are each stored under their own file type (as \<open>add_file_info\<close> stores
  them) and whose timestamps are instances of \<open>datetime\<close> itself, not of
  \<open>pywikibot.Timestamp\<close>, the encoder writes a document, and reading it with
  \<open>json_decode\<close> gives back an equal \<open>LanguageInfo\<close>.
\<close>

theorem roundtrip:
  assumes "\<forall>t. fromisoformat lib (isoformat lib t) = Some t"
    and "\<forall>t. CHR ''Z'' \<notin> set (isoformat lib t)"
    and "keyed_by_page x"
    and "list_all keyed_by_file_type (values_of (worksheets x))"
    and "plain_timestamps x"
  shows "\<exists>doc. dumps_tree lib (PLanguageInfo x) = Inr doc
             \<and> loads_tree lib doc = Inr (PLanguageInfo x)"
  using assms by (simp add: dumps_LanguageInfo loads_LanguageInfo del: dumps_tree.simps)

theorem roundtrip_witness:
  "(\<forall>t. fromisoformat tally_lib (isoformat tally_lib t) = Some t)
   \<and> (\<forall>t. CHR ''Z'' \<notin> set (isoformat tally_lib t))
   \<and> keyed_by_page example_language
   \<and> list_all keyed_by_file_type (values_of (worksheets example_language))
   \<and> plain_timestamps example_language
   \<and> (\<exists>doc. dumps_tree tally_lib (PLanguageInfo example_language) = Inr doc
            \<and> loads_tree tally_lib doc = Inr (PLanguageInfo example_language))"
proof -
  have contract: "\<forall>t. fromisoformat tally_lib (isoformat tally_lib t) = Some t"
    by (simp add: tally_lib_def tally_contract)
  have no_Z: "\<forall>t. CHR ''Z'' \<notin> set (isoformat tally_lib t)"
    by (simp add: tally_lib_def tally_no_Z)
  have ws: "items (worksheets example_language) =
            [(''Forgiveness'', example_worksheet_pdf), (''Prayer'', example_worksheet)]"
    unfolding example_language_def by (rule keys_add_two) simp
  have fs_pdf: "items (files example_worksheet_pdf) = [(''pdf'', example_pdf)]"
    by (simp add: example_worksheet_pdf_def call_add_file_info_def add_file_info_def
        WorksheetInfo_init_def items_def DAList.update.rep_eq DAList.empty.rep_eq
        example_pdf_def)
  have fs_none: "items (files example_worksheet) = []"
    by (simp add: example_worksheet_def WorksheetInfo_init_def items_def DAList.empty.rep_eq)
  have pages: "keyed_by_page example_language"
    by (simp add: keyed_by_page_def ws)
      (simp add: example_worksheet_pdf_def example_worksheet_def call_add_file_info_def
        add_file_info_def WorksheetInfo_init_def)
  have keyed: "list_all keyed_by_file_type (values_of (worksheets example_language))"
    using ws fs_pdf fs_none
    by (simp add: values_of_def items_def keyed_by_file_type_def example_pdf_def)
  have plain: "plain_timestamps example_language"
    using ws fs_pdf fs_none
    by (simp add: plain_timestamps_def values_of_def items_def is_datetime_itself_def
        example_pdf_def)
  from contract no_Z pages keyed plain roundtrip[OF contract no_Z pages keyed plain]
  show ?thesis by blast
qed

subsection \<open>Where the round trip fails\<close>

lemma example_misfiled_decoded:
  "loads_tree example_lib (json_LanguageInfo example_lib example_misfiled)
     = Inr (PLanguageInfo
              (add_worksheet_info (LanguageInfo_init ''de'') ''Prayer'' example_worksheet))"
proof -
  have ws: "values_of (worksheets example_misfiled) = [example_worksheet]"
    by (simp add: example_misfiled_def add_worksheet_info_def LanguageInfo_init_def
        values_of_def DAList.update.rep_eq DAList.empty.rep_eq)
  have fs: "values_of (files example_worksheet) = []"
    by (simp add: example_worksheet_def WorksheetInfo_init_def values_of_def
        DAList.empty.rep_eq)
  have lc: "lang_code example_misfiled = ''de''"
    by (simp add: example_misfiled_def add_worksheet_info_def LanguageInfo_init_def)
  have w: "loads_tree example_lib (json_WorksheetInfo example_lib example_worksheet)
           = Inr (PWorksheetInfo example_worksheet)"
    by (simp add: json_WorksheetInfo_def fs loads_TranslationProgress dict_of_pairs_def
        json_decode_def has_key_def str_arg_def decode_worksheet_files_def)
      (simp add: example_worksheet_def WorksheetInfo_init_def)
  show ?thesis
    using w
    by (simp add: json_LanguageInfo_def ws lc dict_of_pairs_def json_decode_def has_key_def
        str_arg_def decode_language_worksheets_def py_iter_def)
      (simp add: example_worksheet_def WorksheetInfo_init_def)
qed

lemma example_uploaded_is_decoded:
  "loads_tree example_lib (json_LanguageInfo example_lib example_uploaded)
     = Inr (PLanguageInfo example_uploaded_decoded)"
proof -
  define stored where "stored =
    \<lparr>file_type = ''odt'', url = ''https://www.4training.net/Prayer.odt'',
     timestamp = Timestamp example_timestamp\<rparr>"
  define decoded where "decoded =
    \<lparr>file_type = ''odt'', url = ''https://www.4training.net/Prayer.odt'',
     timestamp = Datetime (example_timestamp\<lparr>utcoffset := Some 0\<rparr>)\<rparr>"
  define w where "w = call_add_file_info example_lib example_worksheet
                        (None, Some ''odt'', Some example_odt_upload)"
  define w' where "w' = call_add_file_info example_lib example_worksheet
                         (Some decoded, None, None)"
  define w0 where "w0 = WorksheetInfo_init ''Prayer'' ''de'' ''Gebet'' example_progress"
  have w: "w = w0\<lparr>files := DAList.update ''odt'' stored DAList.empty\<rparr>"
    by (simp add: w_def w0_def stored_def call_add_file_info_def add_file_info_def
        FileInfo_init_def example_worksheet_def WorksheetInfo_init_def example_odt_upload_def
        example_lib_def)
  have w': "w' = w0\<lparr>files := DAList.update ''odt'' decoded DAList.empty\<rparr>"
    by (simp add: w'_def w0_def decoded_def call_add_file_info_def add_file_info_def
        example_worksheet_def WorksheetInfo_init_def)
  have fs: "values_of (files w) = [stored]"
    unfolding w by (simp add: values_of_def DAList.update.rep_eq DAList.empty.rep_eq)
  have written: "isoformat_of example_lib (timestamp stored) = ''2021-05-01T12:00:00Z''"
    by (simp add: stored_def isoformat_of_def example_lib_def)
  have parsed: "fromisoformat example_lib (replace_Z ''2021-05-01T12:00:00Z'')
                = Some (example_timestamp\<lparr>utcoffset := Some 0\<rparr>)"
    by (simp add: example_lib_def)
  have one_file: "loads_tree example_lib (json_FileInfo example_lib stored) = Inr (PFileInfo decoded)"
    unfolding json_FileInfo_def written
    by (simp add: stored_def decoded_def dict_of_pairs_def json_decode_def has_key_def
        str_arg_def FileInfo_init_def parsed del: replace_Z.simps)
  have fields: "page w = ''Prayer''" "language_code w = ''de''" "title w = ''Gebet''"
    "progress w = example_progress"
    unfolding w by (simp_all add: w0_def WorksheetInfo_init_def)
  have added: "decode_files example_lib w0 [PFileInfo decoded] = Inr w'"
    unfolding w' by (simp add: add_file_info_def decoded_def w0_def WorksheetInfo_init_def)
  have sheet: "loads_tree example_lib (json_WorksheetInfo example_lib w) = Inr (PWorksheetInfo w')"
    unfolding json_WorksheetInfo_def fs fields
    by (simp add: one_file loads_TranslationProgress dict_of_pairs_def json_decode_def
        has_key_def str_arg_def decode_worksheet_files_def py_iter_def added[unfolded w0_def]
        del: decode_files.simps)
  have ws: "values_of (worksheets example_uploaded) = [w]"
    by (simp add: example_uploaded_def w_def add_worksheet_info_def LanguageInfo_init_def
        values_of_def DAList.update.rep_eq DAList.empty.rep_eq)
  have lc: "lang_code example_uploaded = ''de''"
    by (simp add: example_uploaded_def add_worksheet_info_def LanguageInfo_init_def)
  have pg: "page w' = ''Prayer''"
    unfolding w' by (simp add: w0_def WorksheetInfo_init_def)
  have result: "example_uploaded_decoded =
                add_worksheet_info (LanguageInfo_init ''de'') ''Prayer'' w'"
    by (simp add: example_uploaded_decoded_def w'_def decoded_def)
  show ?thesis
    unfolding json_LanguageInfo_def ws lc result
    by (simp add: sheet dict_of_pairs_def json_decode_def has_key_def str_arg_def
        decode_language_worksheets_def py_iter_def pg)
qed

lemma example_misfiled_differs:
  "add_worksheet_info (LanguageInfo_init ''de'') ''Prayer'' example_worksheet \<noteq> example_misfiled"
proof -
  have "keys (worksheets example_misfiled) = [''Gebet'']"
    by (simp add: example_misfiled_def add_worksheet_info_def LanguageInfo_init_def
        keys_def DAList.update.rep_eq DAList.empty.rep_eq)
  moreover have "keys (worksheets (add_worksheet_info (LanguageInfo_init ''de'') ''Prayer''
                          example_worksheet)) = [''Prayer'']"
    by (simp add: add_worksheet_info_def LanguageInfo_init_def
        keys_def DAList.update.rep_eq DAList.empty.rep_eq)
  ultimately show ?thesis by auto
qed

lemma example_uploaded_timestamp:
  "map_option timestamp
     (Option.bind (get_worksheet example_uploaded ''Prayer'') (\<lambda>w. get_file_type_info w ''odt''))
   = Some (Timestamp example_timestamp)"
  by (simp add: example_uploaded_def add_worksheet_info_def LanguageInfo_init_def
      get_worksheet_def get_file_type_info_def contains_def DAList.lookup_update
      call_add_file_info_def add_file_info_def FileInfo_init_def example_odt_upload_def)

lemma example_uploaded_decoded_timestamp:
  "map_option timestamp
     (Option.bind (get_worksheet example_uploaded_decoded ''Prayer'')
        (\<lambda>w. get_file_type_info w ''odt''))
   = Some (Datetime (example_timestamp\<lparr>utcoffset := Some 0\<rparr>))"
  by (simp add: example_uploaded_decoded_def add_worksheet_info_def LanguageInfo_init_def
      get_worksheet_def get_file_type_info_def contains_def DAList.lookup_update
      call_add_file_info_def add_file_info_def)

text \<open>
  C2 as stated fails in two ways. A worksheet stored under a name that is not its page
  comes back under its page: the encoder writes the values of the mapping only, and the
  decoder stores every worksheet under its \<open>page\<close>. A file added from an upload holds a
  \<open>pywikibot.Timestamp\<close>, whose \<open>isoformat\<close> ends in \<open>Z\<close>; the constructor reads the
  \<open>Z\<close> as \<open>+00:00\<close>, and the naive time point comes back as an aware \<open>datetime\<close>.
\<close>

theorem roundtrip_counterexample:
  "(plain_timestamps example_misfiled
    \<and> list_all keyed_by_file_type (values_of (worksheets example_misfiled))
    \<and> dumps_tree example_lib (PLanguageInfo example_misfiled)
        = Inr (json_LanguageInfo example_lib example_misfiled)
    \<and> loads_tree example_lib (json_LanguageInfo example_lib example_misfiled)
        = Inr (PLanguageInfo
                 (add_worksheet_info (LanguageInfo_init ''de'') ''Prayer'' example_worksheet))
    \<and> loads_tree example_lib (json_LanguageInfo example_lib example_misfiled)
        \<noteq> Inr (PLanguageInfo example_misfiled))
   \<and> (keyed_by_page example_uploaded
    \<and> list_all keyed_by_file_type (values_of (worksheets example_uploaded))
    \<and> dumps_tree example_lib (PLanguageInfo example_uploaded)
        = Inr (json_LanguageInfo example_lib example_uploaded)
    \<and> loads_tree example_lib (json_LanguageInfo example_lib example_uploaded)
        = Inr (PLanguageInfo example_uploaded_decoded)
    \<and> map_option timestamp
         (Option.bind (get_worksheet example_uploaded ''Prayer'')
            (\<lambda>w. get_file_type_info w ''odt''))
        = Some (Timestamp example_timestamp)
    \<and> map_option timestamp
         (Option.bind (get_worksheet example_uploaded_decoded ''Prayer'')
            (\<lambda>w. get_file_type_info w ''odt''))
        = Some (Datetime (example_timestamp\<lparr>utcoffset := Some 0\<rparr>))
    \<and> loads_tree example_lib (json_LanguageInfo example_lib example_uploaded)
        \<noteq> Inr (PLanguageInfo example_uploaded))"
proof -
  have m_ws: "values_of (worksheets example_misfiled) = [example_worksheet]"
    by (simp add: example_misfiled_def add_worksheet_info_def LanguageInfo_init_def
        values_of_def DAList.update.rep_eq DAList.empty.rep_eq)
  have m_fs: "items (files example_worksheet) = []"
    by (simp add: example_worksheet_def WorksheetInfo_init_def items_def DAList.empty.rep_eq)
  have m_fsv: "values_of (files example_worksheet) = []"
    using m_fs by (simp add: items_empty_iff)
  have m_plain: "plain_timestamps example_misfiled"
    by (simp add: plain_timestamps_def m_ws m_fsv)
  have m_keyed: "list_all keyed_by_file_type (values_of (worksheets example_misfiled))"
    using m_fs by (simp add: m_ws keyed_by_file_type_def)
  have m_differs: "loads_tree example_lib (json_LanguageInfo example_lib example_misfiled)
        \<noteq> Inr (PLanguageInfo example_misfiled)"
    using example_misfiled_differs by (simp add: example_misfiled_decoded)
  define w where "w = call_add_file_info example_lib example_worksheet
                        (None, Some ''odt'', Some example_odt_upload)"
  have w: "w = example_worksheet
                 \<lparr>files := DAList.update ''odt''
                     \<lparr>file_type = ''odt'', url = ''https://www.4training.net/Prayer.odt'',
                      timestamp = Timestamp example_timestamp\<rparr> (files example_worksheet)\<rparr>"
    by (simp add: w_def call_add_file_info_def add_file_info_def FileInfo_init_def
        example_odt_upload_def example_lib_def)
  have u_items: "items (worksheets example_uploaded) = [(''Prayer'', w)]"
    by (simp add: example_uploaded_def w_def add_worksheet_info_def LanguageInfo_init_def
        items_def DAList.update.rep_eq DAList.empty.rep_eq)
  have u_page: "page w = ''Prayer''"
    unfolding w by (simp add: example_worksheet_def WorksheetInfo_init_def)
  have u_pages: "keyed_by_page example_uploaded"
    by (simp add: keyed_by_page_def u_items u_page)
  have "keyed_by_file_type w"
    unfolding w_def example_worksheet_def by (intro keyed_call keyed_init)
  then have u_keyed: "list_all keyed_by_file_type (values_of (worksheets example_uploaded))"
    using u_items by (simp add: values_of_def items_def)
  have "example_uploaded_decoded \<noteq> example_uploaded"
    using example_uploaded_timestamp example_uploaded_decoded_timestamp by auto
  then have u_differs: "loads_tree example_lib (json_LanguageInfo example_lib example_uploaded)
        \<noteq> Inr (PLanguageInfo example_uploaded)"
    by (simp add: example_uploaded_is_decoded)
  from m_plain m_keyed dumps_LanguageInfo example_misfiled_decoded m_differs
    u_pages u_keyed example_uploaded_is_decoded example_uploaded_timestamp
    example_uploaded_decoded_timestamp u_differs
  show ?thesis by blast
qed

end
